theory Spec2Isabelle
  imports Main
begin

section \<open>Tcl and driver vocabulary\<close>

text \<open>
  Tcl completion codes and the driver's error code are C integers. The five standard Tcl
  codes keep their names; every other integer is a custom code a script may return.
\<close>

definition TCL_OK :: int where [simp]: "TCL_OK = 0"
definition TCL_ERROR :: int where [simp]: "TCL_ERROR = 1"
definition TCL_BREAK :: int where [simp]: "TCL_BREAK = 3"
definition TCL_CONTINUE :: int where [simp]: "TCL_CONTINUE = 4"

definition CASS_OK :: int where [simp]: "CASS_OK = 0"

text \<open>The driver's enumeration of CQL value types, with its \<open>UNKNOWN\<close> sentinel.\<close>

datatype CassValueType =
    CASS_VALUE_TYPE_UNKNOWN
  | CASS_VALUE_TYPE_CUSTOM
  | CASS_VALUE_TYPE_ASCII
  | CASS_VALUE_TYPE_BIGINT
  | CASS_VALUE_TYPE_BLOB
  | CASS_VALUE_TYPE_BOOLEAN
  | CASS_VALUE_TYPE_COUNTER
  | CASS_VALUE_TYPE_DECIMAL
  | CASS_VALUE_TYPE_DOUBLE
  | CASS_VALUE_TYPE_FLOAT
  | CASS_VALUE_TYPE_INT
  | CASS_VALUE_TYPE_TEXT
  | CASS_VALUE_TYPE_TIMESTAMP
  | CASS_VALUE_TYPE_UUID
  | CASS_VALUE_TYPE_VARCHAR
  | CASS_VALUE_TYPE_VARINT
  | CASS_VALUE_TYPE_TIMEUUID
  | CASS_VALUE_TYPE_INET
  | CASS_VALUE_TYPE_LIST
  | CASS_VALUE_TYPE_MAP
  | CASS_VALUE_TYPE_SET

datatype CassCollectionType =
    CASS_COLLECTION_TYPE_LIST
  | CASS_COLLECTION_TYPE_MAP
  | CASS_COLLECTION_TYPE_SET

record casstcl_cassTypeInfo =
  cassValueType :: CassValueType
  valueSubType1 :: CassValueType
  valueSubType2 :: CassValueType

text \<open>
  A collection under construction: its kind, the item count it was created for, and the
  elements appended so far, each with the value type it was appended as.
\<close>

record CassCollection =
  collectionType :: CassCollectionType
  itemCount :: nat
  items :: "(CassValueType \<times> string) list"

datatype CassBound =
    BoundValue casstcl_cassTypeInfo string
  | BoundCollection CassCollection

text \<open>
  A statement: the query text, the parameter count it was created with, the consistency
  set on it, and every positional bind issued on it, in call order.
\<close>

record CassStatement =
  query :: string
  parameterCount :: nat
  consistency :: "nat option"
  binds :: "(nat \<times> CassBound) list"

definition cass_statement_new :: "string \<Rightarrow> nat \<Rightarrow> CassStatement" where
  "cass_statement_new q n =
     \<lparr>query = q, parameterCount = n, consistency = None, binds = []\<rparr>"

definition cass_collection_new :: "CassCollectionType \<Rightarrow> nat \<Rightarrow> CassCollection" where
  "cass_collection_new t n = \<lparr>collectionType = t, itemCount = n, items = []\<rparr>"

text \<open>A value of a row or of a schema field: its type, whether it is null, its content.\<close>

datatype CassValue = CassValue CassValueType bool string

fun cass_value_type :: "CassValue \<Rightarrow> CassValueType" where
  "cass_value_type (CassValue t isNull content) = t"

fun cass_value_is_null :: "CassValue \<Rightarrow> bool" where
  "cass_value_is_null (CassValue t isNull content) = isNull"

fun cass_value_get_string :: "CassValue \<Rightarrow> string" where
  "cass_value_get_string (CassValue t isNull content) = content"

datatype error = AssertionFailed

section \<open>The Tcl interpreter\<close>

text \<open>
  The part of the interpreter the functions touch: the result, the error information and
  the line of the last error, and the variables, each an array from element names to
  values. \<open>notArrays\<close> holds the names that cannot be written as arrays.
\<close>

record Tcl_Interp =
  objResult :: string
  errorInfo :: string
  errorLine :: int
  vars :: "string \<Rightarrow> string \<Rightarrow> string option"
  notArrays :: "string set"

definition Tcl_ResetResult :: "Tcl_Interp \<Rightarrow> Tcl_Interp" where
  "Tcl_ResetResult interp = interp\<lparr>objResult := []\<rparr>"

definition Tcl_AppendResult :: "Tcl_Interp \<Rightarrow> string \<Rightarrow> Tcl_Interp" where
  "Tcl_AppendResult interp text = interp\<lparr>objResult := objResult interp @ text\<rparr>"

definition Tcl_GetVar2Ex :: "Tcl_Interp \<Rightarrow> string \<Rightarrow> string \<Rightarrow> string option" where
  "Tcl_GetVar2Ex interp name1 name2 = vars interp name1 name2"

definition Tcl_UnsetVar2 :: "Tcl_Interp \<Rightarrow> string \<Rightarrow> string \<Rightarrow> Tcl_Interp" where
  "Tcl_UnsetVar2 interp name1 name2 =
     interp\<lparr>vars := (vars interp)(name1 := (vars interp name1)(name2 := None))\<rparr>"

definition Tcl_UnsetVar :: "Tcl_Interp \<Rightarrow> string \<Rightarrow> Tcl_Interp" where
  "Tcl_UnsetVar interp name1 = interp\<lparr>vars := (vars interp)(name1 := (\<lambda>name2. None))\<rparr>"

text \<open>With \<open>TCL_LEAVE_ERR_MSG\<close>: \<open>None\<close> is the \<open>NULL\<close> returned on failure.\<close>

definition Tcl_SetVar2Ex ::
  "Tcl_Interp \<Rightarrow> string \<Rightarrow> string \<Rightarrow> string \<Rightarrow> Tcl_Interp option \<times> Tcl_Interp" where
  "Tcl_SetVar2Ex interp name1 name2 newObj =
     (if name1 \<in> notArrays interp then
        (None, interp\<lparr>objResult := ''can'' @ [CHR 0x27] @ ''t set '' @ [CHR 0x22] @ name1
                  @ ''('' @ name2 @ '')'' @ [CHR 0x22] @ '': variable isn'' @ [CHR 0x27]
                  @ ''t array''\<rparr>)
      else
        (let i = interp\<lparr>vars := (vars interp)(name1 := (vars interp name1)(name2 \<mapsto> newObj))\<rparr>
         in (Some i, i)))"

definition Tcl_AddErrorInfo :: "Tcl_Interp \<Rightarrow> string \<Rightarrow> Tcl_Interp" where
  "Tcl_AddErrorInfo interp message = interp\<lparr>errorInfo := errorInfo interp @ message\<rparr>"

definition Tcl_GetErrorLine :: "Tcl_Interp \<Rightarrow> int" where
  "Tcl_GetErrorLine interp = errorLine interp"

text \<open>Appending to a list object the function created itself cannot fail.\<close>

definition Tcl_ListObjAppendElement :: "string list \<Rightarrow> string \<Rightarrow> int \<times> string list" where
  "Tcl_ListObjAppendElement listObj obj = (TCL_OK, listObj @ [obj])"

text \<open>What \<open>sprintf\<close> writes for \<open>%d\<close>.\<close>

fun decimal :: "nat \<Rightarrow> string" where
  "decimal n = (if n < 10 then [''0123456789'' ! n]
                else decimal (n div 10) @ [''0123456789'' ! (n mod 10)])"

definition sprintf_d :: "int \<Rightarrow> string" where
  "sprintf_d i = (if i < 0 then ''-'' @ decimal (nat (- i)) else decimal (nat i))"

section \<open>Helpers of the repository that live outside this source file\<close>

text \<open>
  The functions of this file call helpers defined in other files of the repository. What
  they decide is taken as a parameter:
  \<^item> \<open>columnTypes table column\<close>: the Tcl code returned by the type lookup, the type
    information it writes, and the message it leaves in the interpreter when it fails;
  \<^item> \<open>consistencyCode\<close>: the code returned when the consistency is set on a statement;
  \<^item> \<open>convertValue type value\<close>: the code returned when a value is converted and bound,
    and the message left on failure;
  \<^item> \<open>typeName\<close>: the printable name of a value type;
  \<^item> \<open>appendError type value\<close>: the driver error of appending an element to a collection;
  \<^item> \<open>bindCollectionError index\<close>: the driver error of binding a collection;
  \<^item> \<open>errorMessage\<close>: the text of a driver error;
  \<^item> \<open>valueToObj value\<close>: the code returned when a row value is converted to a Tcl
    object, the object (if one is made), and the message left on failure;
  \<^item> \<open>validatorToType validator\<close>: the Tcl procedure \<open>::casstcl::validator_to_type\<close>,
    run in the interpreter.
\<close>

record casstcl_env =
  columnTypes :: "string \<Rightarrow> string \<Rightarrow> int \<times> casstcl_cassTypeInfo \<times> string"
  consistencyCode :: "nat option \<Rightarrow> int"
  convertValue :: "casstcl_cassTypeInfo \<Rightarrow> string \<Rightarrow> int \<times> string"
  typeName :: "CassValueType \<Rightarrow> string"
  appendError :: "CassValueType \<Rightarrow> string \<Rightarrow> int"
  bindCollectionError :: "nat \<Rightarrow> int"
  errorMessage :: "int \<Rightarrow> string"
  valueToObj :: "CassValue \<Rightarrow> int \<times> string option \<times> string"
  validatorToType :: "string \<Rightarrow> Tcl_Interp \<Rightarrow> int \<times> Tcl_Interp"

text \<open>
  Modelled from the spec: \<open>casstcl_typename_obj_to_cass_value_types\<close> is not in this
  source file. It resolves a column of a table to its type descriptor and reports an
  unknown column by a code of its own (\<open>TCL_CONTINUE\<close>), distinct from an error.
\<close>

definition casstcl_typename_obj_to_cass_value_types ::
  "casstcl_env \<Rightarrow> string \<Rightarrow> string \<Rightarrow> int \<times> casstcl_cassTypeInfo \<times> string" where
  "casstcl_typename_obj_to_cass_value_types env tableName column =
     columnTypes env tableName column"

text \<open>
  Modelled from the spec: \<open>casstcl_setStatementConsistency\<close> is not in this source file.
  It applies the consistency override to the statement when it succeeds.
\<close>

definition casstcl_setStatementConsistency ::
  "casstcl_env \<Rightarrow> CassStatement \<Rightarrow> nat option \<Rightarrow> int \<times> CassStatement" where
  "casstcl_setStatementConsistency env statement consistencyPtr =
     (let rc = consistencyCode env consistencyPtr
      in (rc, if rc = TCL_OK then statement\<lparr>consistency := consistencyPtr\<rparr> else statement))"

text \<open>
  Modelled from the spec: \<open>casstcl_bind_tcl_obj\<close> is not in this source file. It converts
  the value for the resolved type and binds it into the positional slot; the bind request
  is recorded on the statement, and a failed conversion leaves its message.
\<close>

definition casstcl_bind_tcl_obj ::
  "casstcl_env \<Rightarrow> CassStatement \<Rightarrow> nat \<Rightarrow> casstcl_cassTypeInfo \<Rightarrow> string
     \<Rightarrow> int \<times> string \<times> CassStatement" where
  "casstcl_bind_tcl_obj env statement index ti valueObj =
     (let (rc, msg) = convertValue env ti valueObj
      in (rc, msg, statement\<lparr>binds := binds statement @ [(index, BoundValue ti valueObj)]\<rparr>))"

text \<open>
  Modelled from the spec: \<open>casstcl_append_tcl_obj_to_collection\<close> is not in this source
  file. It coerces the value to the given type and appends it to the collection.
\<close>

definition casstcl_append_tcl_obj_to_collection ::
  "casstcl_env \<Rightarrow> CassCollection \<Rightarrow> CassValueType \<Rightarrow> string \<Rightarrow> int \<times> CassCollection" where
  "casstcl_append_tcl_obj_to_collection env collection t obj =
     (let cassError = appendError env t obj
      in (cassError,
          if cassError = CASS_OK then collection\<lparr>items := items collection @ [(t, obj)]\<rparr>
          else collection))"

text \<open>The driver's \<open>cass_statement_bind_collection\<close>: the bind request is recorded.\<close>

definition cass_statement_bind_collection ::
  "casstcl_env \<Rightarrow> CassStatement \<Rightarrow> nat \<Rightarrow> CassCollection \<Rightarrow> int \<times> CassStatement" where
  "cass_statement_bind_collection env statement index collection =
     (bindCollectionError env index,
      statement\<lparr>binds := binds statement @ [(index, BoundCollection collection)]\<rparr>)"

text \<open>
  Modelled from the spec: \<open>casstcl_cass_error_to_tcl\<close> is not in this source file. It
  turns a driver error into a Tcl error whose message is the error's text.
\<close>

definition casstcl_cass_error_to_tcl :: "casstcl_env \<Rightarrow> int \<Rightarrow> int \<times> string" where
  "casstcl_cass_error_to_tcl env cassError = (TCL_ERROR, errorMessage env cassError)"

section \<open>casstcl\_make\_upsert\_statement\<close>

text \<open>
  The key-value list object either splits into its elements or is not a well-formed Tcl
  list, in which case \<open>Tcl_ListObjGetElements\<close> fails and leaves a message.
\<close>

datatype Tcl_ListObj = TclList "string list" | TclNotAList string

text \<open>
  The local variables of the function, with the interpreter result and a record of the
  column names handed to the type lookup.
\<close>

record upsert_state =
  ds :: string
  nFields :: nat
  didOne :: bool
  nUnknownToMap :: nat
  typeInfo :: "casstcl_cassTypeInfo list"
  tclReturn :: int
  interpResult :: string
  typeLookups :: "string list"

text \<open>
  The first loop, \<open>for (i = 0; i < listObjc; i += 2)\<close>: \<open>k\<close> is \<open>listObjv[i]\<close> and \<open>v\<close>
  is \<open>listObjv[i+1]\<close>. An equation that returns the state without a recursive call is a
  \<open>break\<close>; a recursive call that appends no column is a \<open>continue\<close>.
\<close>

fun upsert_columns ::
  "casstcl_env \<Rightarrow> string \<Rightarrow> string option \<Rightarrow> bool \<Rightarrow> string list \<Rightarrow> upsert_state
     \<Rightarrow> upsert_state" where
  "upsert_columns env tableName mapUnknown dropUnknown (k # v # rest) s =
     (let (rc, ti, msg) = casstcl_typename_obj_to_cass_value_types env tableName k;
          s1 = s\<lparr>typeInfo := typeInfo s @ [ti], tclReturn := rc,
                 typeLookups := typeLookups s @ [k]\<rparr>
      in if rc = TCL_ERROR then s1\<lparr>interpResult := msg\<rparr>
         else if rc = TCL_CONTINUE then
           (if dropUnknown then
              upsert_columns env tableName mapUnknown dropUnknown rest (s1\<lparr>tclReturn := TCL_OK\<rparr>)
            else if mapUnknown \<noteq> None then
              upsert_columns env tableName mapUnknown dropUnknown rest
                (s1\<lparr>nUnknownToMap := nUnknownToMap s1 + 1, tclReturn := TCL_OK\<rparr>)
            else
              s1\<lparr>interpResult := ''unknown column '' @ [CHR 0x27] @ k @ [CHR 0x27]
                      @ '' in upsert for table '' @ [CHR 0x27] @ tableName @ [CHR 0x27],
                  tclReturn := TCL_ERROR\<rparr>)
         else
           upsert_columns env tableName mapUnknown dropUnknown rest
             (s1\<lparr>ds := ds s1 @ (if didOne s1 then '','' else []) @ k,
                 nFields := nFields s1 + 1, didOne := True\<rparr>))"
| "upsert_columns env tableName mapUnknown dropUnknown rest s = s"

text \<open>The loop that writes the placeholders: iteration \<open>i\<close> appends \<open>?\<close> or \<open>,?\<close>.\<close>

primrec upsert_placeholders :: "nat \<Rightarrow> string" where
  "upsert_placeholders 0 = []"
| "upsert_placeholders (Suc i) = upsert_placeholders i @ (if i > 0 then '',?'' else ''?'')"

text \<open>The state of the binding pass.\<close>

record bind_state =
  statement :: CassStatement
  bindField :: nat
  bindReturn :: int
  bindResult :: string

text \<open>
  The second loop binds the value of every pair whose cached type is not \<open>UNKNOWN\<close>.
  \<open>assert (bindField < nFields)\<close> aborts the program when it fails.
\<close>

fun upsert_bind_fields ::
  "casstcl_env \<Rightarrow> string \<Rightarrow> nat \<Rightarrow> string list \<Rightarrow> casstcl_cassTypeInfo list \<Rightarrow> bind_state
     \<Rightarrow> error + bind_state" where
  "upsert_bind_fields env tableName n (k # valueObj # rest) (ti # tis) b =
     (if cassValueType ti = CASS_VALUE_TYPE_UNKNOWN then
        upsert_bind_fields env tableName n rest tis b
      else if \<not> bindField b < n then Inl AssertionFailed
      else
        (let (rc, msg, st) = casstcl_bind_tcl_obj env (statement b) (bindField b) ti valueObj;
             b1 = b\<lparr>statement := st, bindField := bindField b + 1, bindReturn := rc\<rparr>
         in if rc = TCL_ERROR then
              Inr (b1\<lparr>bindResult := msg
                     @ '' while constructing upsert statement, while attempting to bind field ''
                     @ [CHR 0x27] @ k @ [CHR 0x27] @ '' of type '' @ [CHR 0x27]
                     @ typeName env (cassValueType ti) @ [CHR 0x27] @ '', value ''
                     @ [CHR 0x27] @ valueObj @ [CHR 0x27] @ '' referencing table ''
                     @ [CHR 0x27] @ tableName @ [CHR 0x27]\<rparr>)
            else upsert_bind_fields env tableName n rest tis b1))"
| "upsert_bind_fields env tableName n kvs tis b = Inr b"

text \<open>
  The third loop appends the name and the value of every pair whose cached type is
  \<open>UNKNOWN\<close> to the map collection, both as text. It returns the collection and, when an
  append failed, the Tcl code and message of that failure.
\<close>

fun upsert_map_pairs ::
  "casstcl_env \<Rightarrow> string list \<Rightarrow> casstcl_cassTypeInfo list \<Rightarrow> CassCollection
     \<Rightarrow> CassCollection \<times> (int \<times> string) option" where
  "upsert_map_pairs env (k # valueObj # rest) (ti # tis) collection =
     (if cassValueType ti \<noteq> CASS_VALUE_TYPE_UNKNOWN then
        upsert_map_pairs env rest tis collection
      else
        (let (cassError, c1) =
               casstcl_append_tcl_obj_to_collection env collection CASS_VALUE_TYPE_TEXT k
         in if cassError \<noteq> CASS_OK then (c1, Some (casstcl_cass_error_to_tcl env cassError))
            else
              (let (cassError2, c2) =
                     casstcl_append_tcl_obj_to_collection env c1 CASS_VALUE_TYPE_TEXT valueObj
               in if cassError2 \<noteq> CASS_OK then
                    (c2, Some (casstcl_cass_error_to_tcl env cassError2))
                  else upsert_map_pairs env rest tis c2)))"
| "upsert_map_pairs env kvs tis collection = (collection, None)"

text \<open>The block \<open>if (nUnknownToMap > 0)\<close> after the binding loop.\<close>

definition upsert_bind_map ::
  "casstcl_env \<Rightarrow> nat \<Rightarrow> nat \<Rightarrow> string list \<Rightarrow> casstcl_cassTypeInfo list \<Rightarrow> bind_state
     \<Rightarrow> error + bind_state" where
  "upsert_bind_map env n nUnknown listObjv tis b =
     (if nUnknown > 0 then
        (let (collection, failed) =
               upsert_map_pairs env listObjv tis
                 (cass_collection_new CASS_COLLECTION_TYPE_MAP nUnknown);
             b1 = (case failed of
                     None \<Rightarrow> b
                   | Some (rc, msg) \<Rightarrow> b\<lparr>bindReturn := rc, bindResult := msg\<rparr>)
         in if \<not> bindField b1 < n then Inl AssertionFailed
            else
              (let (cassError, st) =
                     cass_statement_bind_collection env (statement b1) (bindField b1) collection;
                   b2 = b1\<lparr>statement := st\<rparr>
               in if cassError \<noteq> CASS_OK then
                    Inr (b2\<lparr>bindReturn := fst (casstcl_cass_error_to_tcl env cassError),
                            bindResult := snd (casstcl_cass_error_to_tcl env cassError)\<rparr>)
                  else Inr b2))
      else Inr b)"

text \<open>
  What the caller gets back: the Tcl code, the interpreter result, and the statement
  stored through \<open>statementPtr\<close> (if any). Two more fields observe the call: the
  statement object the function created, with the binds issued on it, whether or not it
  was handed to the caller; and the column names handed to the type lookup. The
  interpreter result is empty when the function is entered.
\<close>

record upsert_outcome =
  returnCode :: int
  resultText :: string
  statementPtr :: "CassStatement option"
  constructed :: "CassStatement option"
  lookedUp :: "string list"

definition casstcl_make_upsert_statement ::
  "casstcl_env \<Rightarrow> string \<Rightarrow> Tcl_ListObj \<Rightarrow> nat option \<Rightarrow> string option \<Rightarrow> bool \<Rightarrow> bool
     \<Rightarrow> error + upsert_outcome" where
  "casstcl_make_upsert_statement env tableName listObj consistencyPtr mapUnknown dropUnknown
       ifNotExists =
     (case listObj of
        TclNotAList msg \<Rightarrow>
          Inr \<lparr>returnCode = TCL_ERROR,
               resultText = msg @ '' while parsing list of key-value pairs'',
               statementPtr = None, constructed = None, lookedUp = []\<rparr>
      | TclList listObjv \<Rightarrow>
          if odd (length listObjv) then
            Inr \<lparr>returnCode = TCL_ERROR,
                 resultText = ''key-value pair list must contain an even number of elements'',
                 statementPtr = None, constructed = None, lookedUp = []\<rparr>
          else
            (let s0 = \<lparr>ds = ''INSERT INTO '' @ tableName @ '' ('', nFields = 0,
                       didOne = False, nUnknownToMap = 0, typeInfo = [], tclReturn = TCL_OK,
                       interpResult = [], typeLookups = []\<rparr>;
                 s1 = upsert_columns env tableName mapUnknown dropUnknown listObjv s0;
                 s2 = (if nUnknownToMap s1 > 0 then
                         s1\<lparr>ds := ds s1 @ (if didOne s1 then '','' else [])
                                 @ (case mapUnknown of None \<Rightarrow> [] | Some m \<Rightarrow> m),
                            nFields := nFields s1 + 1\<rparr>
                       else s1);
                 s3 = s2\<lparr>ds := ds s2 @ '') values ('' @ upsert_placeholders (nFields s2)
                            @ (if ifNotExists then '') IF NOT EXISTS'' else '')'')\<rparr>
             in if tclReturn s3 = TCL_OK then
                  (let (rc, st) =
                         casstcl_setStatementConsistency env
                           (cass_statement_new (ds s3) (nFields s3)) consistencyPtr;
                       b0 = \<lparr>statement = st, bindField = 0, bindReturn = rc,
                             bindResult = interpResult s3\<rparr>
                   in if rc \<noteq> TCL_OK then
                        Inr \<lparr>returnCode = rc, resultText = interpResult s3,
                             statementPtr = None, constructed = Some st,
                             lookedUp = typeLookups s3\<rparr>
                      else
                        (case upsert_bind_fields env tableName (nFields s3) listObjv
                                (typeInfo s3) b0 of
                           Inl e \<Rightarrow> Inl e
                         | Inr b1 \<Rightarrow>
                             (case upsert_bind_map env (nFields s3) (nUnknownToMap s3)
                                     listObjv (typeInfo s3) b1 of
                                Inl e \<Rightarrow> Inl e
                              | Inr b2 \<Rightarrow>
                                  Inr \<lparr>returnCode = bindReturn b2,
                                       resultText = bindResult b2,
                                       statementPtr =
                                         (if bindReturn b2 = TCL_OK then Some (statement b2)
                                          else None),
                                       constructed = Some (statement b2),
                                       lookedUp = typeLookups s3\<rparr>)))
                else
                  Inr \<lparr>returnCode = tclReturn s3, resultText = interpResult s3,
                       statementPtr = None, constructed = None,
                       lookedUp = typeLookups s3\<rparr>))"

section \<open>casstcl\_select\<close>

text \<open>
  What the session answers to the query, page after page. A future carries an error, or
  succeeds without a result, or succeeds with a result: the column count, the rows (each
  a list of column names and values) and, when the result has more pages, the future that
  executing the statement again with this result's paging state returns. The code of
  \<open>FutureError\<close> is the error code of the future, which is not \<open>CASS_OK\<close>. The
  datatype holds finitely many pages, so a query has finitely many of them.
\<close>

datatype CassFuture =
    FutureError int string
  | FutureNoResult
  | FutureResult int "(string \<times> CassValue) list list" "CassFuture option"

text \<open>
  Modelled from the spec: \<open>casstcl_future_error_to_tcl\<close> is not in this source file. It
  maps the driver error of a failed execution to a Tcl error that carries its message.
\<close>

definition casstcl_future_error_to_tcl :: "Tcl_Interp \<Rightarrow> int \<Rightarrow> string \<Rightarrow> int \<times> Tcl_Interp" where
  "casstcl_future_error_to_tcl interp rc message = (TCL_ERROR, interp\<lparr>objResult := message\<rparr>)"

text \<open>
  Modelled from the spec: \<open>casstcl_cass_value_to_tcl_obj\<close> is not in this source file. It
  converts a column value to a host value, which may be absent, or fails with a message.
\<close>

definition casstcl_cass_value_to_tcl_obj ::
  "casstcl_env \<Rightarrow> Tcl_Interp \<Rightarrow> CassValue \<Rightarrow> int \<times> string option \<times> Tcl_Interp" where
  "casstcl_cass_value_to_tcl_obj env interp v =
     (let (rc, newObj, msg) = valueToObj env v
      in (rc, newObj, if rc = TCL_ERROR then interp\<lparr>objResult := msg\<rparr> else interp))"

text \<open>
  The events of a call, in order: each execution of the statement with the future it
  returned, and each evaluation of the code body with the code it returned and the
  interpreter it left.
\<close>

datatype select_event = Executed CassFuture | Evaluated int Tcl_Interp

text \<open>
  The local variables of the function, the interpreter, the events so far, and the rows
  on which the code body has been evaluated so far, in order.
\<close>

record select_state =
  selReturn :: int
  columnCount :: int
  selInterp :: Tcl_Interp
  events :: "select_event list"
  rowsEvaluated :: "(string \<times> CassValue) list list"

text \<open>
  The loop over the columns of a row, \<open>for (i = 0; i < columnCount; i++)\<close>, here over
  the first \<open>columnCount\<close> columns. A state returned without a recursive call is a
  \<open>break\<close>, which leaves this loop only.
\<close>

fun select_columns ::
  "casstcl_env \<Rightarrow> string \<Rightarrow> (string \<times> CassValue) list \<Rightarrow> select_state \<Rightarrow> select_state" where
  "select_columns env arrayName [] s = s"
| "select_columns env arrayName ((columnName, columnValue) # rest) s =
     (if cass_value_is_null columnValue then
        select_columns env arrayName rest
          (s\<lparr>selInterp := Tcl_UnsetVar2 (selInterp s) arrayName columnName\<rparr>)
      else
        (let (rc, newObj, i1) = casstcl_cass_value_to_tcl_obj env (selInterp s) columnValue
         in if rc = TCL_ERROR then s\<lparr>selReturn := TCL_ERROR, selInterp := i1\<rparr>
            else
              (case newObj of
                 None \<Rightarrow>
                   select_columns env arrayName rest
                     (s\<lparr>selInterp := Tcl_UnsetVar2 i1 arrayName columnName\<rparr>)
               | Some obj \<Rightarrow>
                   (case Tcl_SetVar2Ex i1 arrayName columnName obj of
                      (None, i2) \<Rightarrow> s\<lparr>selReturn := TCL_ERROR, selInterp := i2\<rparr>
                    | (Some v, i2) \<Rightarrow>
                        select_columns env arrayName rest (s\<lparr>selInterp := i2\<rparr>)))))"

text \<open>The decoration added to the error information when the code body fails.\<close>

definition select_body_line :: "int \<Rightarrow> string" where
  "select_body_line line =
     [CHR 0x0A] @ ''    ('' @ [CHR 0x22] @ ''select'' @ [CHR 0x22] @ '' body line ''
       @ sprintf_d line @ '')''"

text \<open>
  The loop over the rows of a page, \<open>while (cass_iterator_next(iterator))\<close>. The code
  body \<open>codeObj\<close> runs in the interpreter and returns a code and the interpreter it leaves.
\<close>

fun select_rows ::
  "casstcl_env \<Rightarrow> string \<Rightarrow> (Tcl_Interp \<Rightarrow> int \<times> Tcl_Interp)
     \<Rightarrow> (string \<times> CassValue) list list \<Rightarrow> select_state \<Rightarrow> select_state" where
  "select_rows env arrayName codeObj [] s = s"
| "select_rows env arrayName codeObj (row # rest) s =
     (let s1 = select_columns env arrayName (take (nat (columnCount s)) row) s;
          (evalReturnCode, i1) = codeObj (selInterp s1);
          s2 = s1\<lparr>selInterp := i1, events := events s1 @ [Evaluated evalReturnCode i1],
                 rowsEvaluated := rowsEvaluated s1 @ [row]\<rparr>
      in if evalReturnCode \<noteq> TCL_OK \<and> evalReturnCode \<noteq> TCL_CONTINUE then
           (let s3 = (if evalReturnCode = TCL_BREAK then s2\<lparr>selReturn := TCL_BREAK\<rparr> else s2)
            in if evalReturnCode = TCL_ERROR then
                 s3\<lparr>selReturn := TCL_ERROR,
                    selInterp := Tcl_AddErrorInfo (selInterp s3)
                      (select_body_line (Tcl_GetErrorLine (selInterp s3)))\<rparr>
               else s3)
         else select_rows env arrayName codeObj rest s2)"

text \<open>
  The \<open>do ... while (has_more_pages && tclReturn == TCL_OK)\<close> loop. The argument is
  the future that \<open>cass_session_execute\<close> returns for the statement in its current
  paging state.
\<close>

fun select_pages ::
  "casstcl_env \<Rightarrow> string \<Rightarrow> (Tcl_Interp \<Rightarrow> int \<times> Tcl_Interp) \<Rightarrow> CassFuture
     \<Rightarrow> select_state \<Rightarrow> select_state" where
  "select_pages env arrayName codeObj (FutureError rc message) s =
     (let (r, i1) = casstcl_future_error_to_tcl (selInterp s) rc message
      in s\<lparr>selReturn := r, selInterp := i1,
            events := events s @ [Executed (FutureError rc message)]\<rparr>)"
| "select_pages env arrayName codeObj FutureNoResult s =
     s\<lparr>selReturn := TCL_ERROR,
        selInterp := Tcl_AppendResult (Tcl_ResetResult (selInterp s)) ''future has no result'',
        events := events s @ [Executed FutureNoResult]\<rparr>"
| "select_pages env arrayName codeObj (FutureResult count rows None) s =
     (let s1 = s\<lparr>events := events s @ [Executed (FutureResult count rows None)]\<rparr>;
          s2 = (if columnCount s1 = - 1 then s1\<lparr>columnCount := count\<rparr> else s1)
      in select_rows env arrayName codeObj rows s2)"
| "select_pages env arrayName codeObj (FutureResult count rows (Some nextFuture)) s =
     (let s1 = s\<lparr>events := events s @ [Executed (FutureResult count rows (Some nextFuture))]\<rparr>;
          s2 = (if columnCount s1 = - 1 then s1\<lparr>columnCount := count\<rparr> else s1);
          s3 = select_rows env arrayName codeObj rows s2
      in if selReturn s3 = TCL_OK then select_pages env arrayName codeObj nextFuture s3
         else s3)"

text \<open>
  What the caller gets back, with the events of the call and the rows on which the code
  body was evaluated.
\<close>

record select_outcome =
  selectCode :: int
  selectInterp :: Tcl_Interp
  selectEvents :: "select_event list"
  selectRows :: "(string \<times> CassValue) list list"

definition casstcl_select ::
  "casstcl_env \<Rightarrow> CassFuture \<Rightarrow> Tcl_Interp \<Rightarrow> string \<Rightarrow> string
     \<Rightarrow> (Tcl_Interp \<Rightarrow> int \<times> Tcl_Interp) \<Rightarrow> int \<Rightarrow> nat option \<Rightarrow> select_outcome" where
  "casstcl_select env session interp queryString arrayName codeObj pagingSize consistencyPtr =
     (let (rc, st) =
            casstcl_setStatementConsistency env (cass_statement_new queryString 0) consistencyPtr
      in if rc \<noteq> TCL_OK then
           \<lparr>selectCode = TCL_ERROR, selectInterp = interp, selectEvents = [],
            selectRows = []\<rparr>
         else
           (let s = select_pages env arrayName codeObj session
                      \<lparr>selReturn = TCL_OK, columnCount = - 1, selInterp = interp, events = [],
                       rowsEvaluated = []\<rparr>
            in \<lparr>selectCode = (if selReturn s = TCL_BREAK then TCL_OK else selReturn s),
                selectInterp = Tcl_UnsetVar (selInterp s) arrayName,
                selectEvents = events s, selectRows = rowsEvaluated s\<rparr>))"

section \<open>casstcl\_list\_columns\<close>

text \<open>
  The schema metadata of the driver: an entry has a kind and named fields; a table is the
  sequence of its column entries, in the order the iterator yields them; a keyspace maps
  table names to tables, and the schema maps keyspace names to keyspaces.
\<close>

datatype CassSchemaMetaType =
    CASS_SCHEMA_META_TYPE_KEYSPACE
  | CASS_SCHEMA_META_TYPE_TABLE
  | CASS_SCHEMA_META_TYPE_COLUMN

record CassSchemaMeta =
  cass_schema_meta_type :: CassSchemaMetaType
  cass_schema_meta_get_field :: "string \<Rightarrow> CassValue option"

type_synonym CassTableMeta = "CassSchemaMeta list"

type_synonym CassKeyspaceMeta = "string \<Rightarrow> CassTableMeta option"

type_synonym CassSchema = "string \<Rightarrow> CassKeyspaceMeta option"

text \<open>The list under construction, the Tcl code, and the interpreter.\<close>

record columns_state =
  colList :: "string list"
  colReturn :: int
  colInterp :: Tcl_Interp

text \<open>
  The loop \<open>while (cass_iterator_next(iterator))\<close> over the column entries of the table.
  A state returned without a recursive call is a \<open>break\<close> or the \<open>goto error\<close>; both
  lead to the same code after the loop.
\<close>

fun list_columns_loop ::
  "casstcl_env \<Rightarrow> bool \<Rightarrow> CassSchemaMeta list \<Rightarrow> columns_state \<Rightarrow> error + columns_state" where
  "list_columns_loop env includeTypes [] s = Inr s"
| "list_columns_loop env includeTypes (columnMeta # rest) s =
     (if cass_schema_meta_type columnMeta \<noteq> CASS_SCHEMA_META_TYPE_COLUMN then
        Inl AssertionFailed
      else
        (case cass_schema_meta_get_field columnMeta ''column_name'' of
           None \<Rightarrow> Inl AssertionFailed
         | Some fieldValue \<Rightarrow>
             if cass_value_type fieldValue \<noteq> CASS_VALUE_TYPE_VARCHAR then
               list_columns_loop env includeTypes rest s
             else
               (let (rc, l1) =
                      Tcl_ListObjAppendElement (colList s) (cass_value_get_string fieldValue)
                in if rc = TCL_ERROR then Inr (s\<lparr>colList := l1, colReturn := TCL_ERROR\<rparr>)
                   else if includeTypes then
                     (case cass_schema_meta_get_field columnMeta ''validator'' of
                        None \<Rightarrow> Inl AssertionFailed
                      | Some validatorValue \<Rightarrow>
                          (case Tcl_GetVar2Ex (colInterp s)
                                  ''::casstcl::validatorTypeLookupCache''
                                  (cass_value_get_string validatorValue) of
                             Some elementObj \<Rightarrow>
                               (let (rc2, l2) = Tcl_ListObjAppendElement l1 elementObj
                                in if rc2 = TCL_ERROR then
                                     Inr (s\<lparr>colList := l2, colReturn := TCL_ERROR\<rparr>)
                                   else list_columns_loop env includeTypes rest
                                          (s\<lparr>colList := l2\<rparr>))
                           | None \<Rightarrow>
                               (let (rc1, i1) =
                                      validatorToType env (cass_value_get_string validatorValue)
                                        (colInterp s)
                                in if rc1 = TCL_ERROR then
                                     Inr (s\<lparr>colList := l1, colReturn := rc1, colInterp := i1\<rparr>)
                                   else
                                     (let (rc2, l2) = Tcl_ListObjAppendElement l1 (objResult i1)
                                      in if rc2 = TCL_ERROR then
                                           Inr (s\<lparr>colList := l2, colReturn := TCL_ERROR,
                                                  colInterp := i1\<rparr>)
                                         else list_columns_loop env includeTypes rest
                                                (s\<lparr>colList := l2, colReturn := TCL_OK,
                                                   colInterp := i1\<rparr>)))))
                   else list_columns_loop env includeTypes rest (s\<lparr>colList := l1\<rparr>))))"

text \<open>What the caller gets back: the Tcl code, the list stored through \<open>objPtr\<close> (if the
  function got that far), and the interpreter.\<close>

record columns_outcome =
  columnsCode :: int
  objPtr :: "string list option"
  columnsInterp :: Tcl_Interp

definition casstcl_list_columns ::
  "casstcl_env \<Rightarrow> CassSchema \<Rightarrow> Tcl_Interp \<Rightarrow> string \<Rightarrow> string \<Rightarrow> bool
     \<Rightarrow> error + columns_outcome" where
  "casstcl_list_columns env schema interp keyspace table includeTypes =
     (case schema keyspace of
        None \<Rightarrow>
          Inr \<lparr>columnsCode = TCL_ERROR, objPtr = None,
               columnsInterp = Tcl_AppendResult (Tcl_ResetResult interp)
                 (''keyspace '' @ [CHR 0x27] @ keyspace @ [CHR 0x27] @ '' not found'')\<rparr>
      | Some keyspaceMeta \<Rightarrow>
          (case keyspaceMeta table of
             None \<Rightarrow>
               Inr \<lparr>columnsCode = TCL_ERROR, objPtr = None,
                    columnsInterp = Tcl_AppendResult (Tcl_ResetResult interp)
                      (''table '' @ [CHR 0x27] @ table @ [CHR 0x27]
                        @ '' not found in keyspace '' @ [CHR 0x27] @ keyspace @ [CHR 0x27])\<rparr>
           | Some tableMeta \<Rightarrow>
               (case list_columns_loop env includeTypes tableMeta
                       \<lparr>colList = [], colReturn = TCL_OK, colInterp = interp\<rparr> of
                  Inl e \<Rightarrow> Inl e
                | Inr s \<Rightarrow>
                    Inr \<lparr>columnsCode = colReturn s, objPtr = Some (colList s),
                         columnsInterp = (if colReturn s = TCL_OK
                                          then Tcl_ResetResult (colInterp s)
                                          else colInterp s)\<rparr>)))"

section \<open>Vocabulary for the column listing\<close>








section \<open>Vocabulary for stating the properties of the upsert builder\<close>

text \<open>The column names of a key-value list: the elements at even positions.\<close>

fun pair_names :: "string list \<Rightarrow> string list" where
  "pair_names (k # v # rest) = k # pair_names rest"
| "pair_names rest = []"

definition lookup_code :: "casstcl_env \<Rightarrow> string \<Rightarrow> string \<Rightarrow> int" where
  "lookup_code env tableName k = fst (columnTypes env tableName k)"

definition lookup_type :: "casstcl_env \<Rightarrow> string \<Rightarrow> string \<Rightarrow> casstcl_cassTypeInfo" where
  "lookup_type env tableName k = fst (snd (columnTypes env tableName k))"

text \<open>The message of the unknown-column error.\<close>

definition unknown_column_message :: "string \<Rightarrow> string \<Rightarrow> string" where
  "unknown_column_message column tableName =
     ''unknown column '' @ [CHR 0x27] @ column @ [CHR 0x27] @ '' in upsert for table ''
       @ [CHR 0x27] @ tableName @ [CHR 0x27]"

text \<open>
  The pairs whose column the type lookup knows, and the pairs it reports as unknown
  (\<open>TCL_CONTINUE\<close>), each in list order.
\<close>

fun recognized_pairs :: "casstcl_env \<Rightarrow> string \<Rightarrow> string list \<Rightarrow> (string \<times> string) list" where
  "recognized_pairs env tableName (k # v # rest) =
     (if lookup_code env tableName k = TCL_CONTINUE then recognized_pairs env tableName rest
      else (k, v) # recognized_pairs env tableName rest)"
| "recognized_pairs env tableName rest = []"

fun unrecognized_pairs :: "casstcl_env \<Rightarrow> string \<Rightarrow> string list \<Rightarrow> (string \<times> string) list" where
  "unrecognized_pairs env tableName (k # v # rest) =
     (if lookup_code env tableName k = TCL_CONTINUE
      then (k, v) # unrecognized_pairs env tableName rest
      else unrecognized_pairs env tableName rest)"
| "unrecognized_pairs env tableName rest = []"

text \<open>Column names separated by commas.\<close>

fun comma_join :: "string list \<Rightarrow> string" where
  "comma_join [] = []"
| "comma_join [x] = x"
| "comma_join (x # y # ys) = x @ '','' @ comma_join (y # ys)"

text \<open>
  Binds of the values of pairs at consecutive positions from \<open>i\<close> on, in list order,
  each with the type of its column.
\<close>

fun value_binds ::
  "casstcl_env \<Rightarrow> string \<Rightarrow> nat \<Rightarrow> (string \<times> string) list \<Rightarrow> (nat \<times> CassBound) list" where
  "value_binds env tableName i [] = []"
| "value_binds env tableName i ((k, v) # ps) =
     (i, BoundValue (lookup_type env tableName k) v) # value_binds env tableName (Suc i) ps"

text \<open>The elements of a map of pairs, names and values as text: name, value, name, ...\<close>

fun text_items :: "(string \<times> string) list \<Rightarrow> (CassValueType \<times> string) list" where
  "text_items [] = []"
| "text_items ((k, v) # ps) = (CASS_VALUE_TYPE_TEXT, k) # (CASS_VALUE_TYPE_TEXT, v) # text_items ps"

text \<open>
  The type lookup keeps its contract on the columns of a list: it reports a column as
  unknown exactly when the type it writes is the \<open>UNKNOWN\<close> sentinel.
\<close>

definition lookups_consistent :: "casstcl_env \<Rightarrow> string \<Rightarrow> string list \<Rightarrow> bool" where
  "lookups_consistent env tableName listObjv =
     list_all (\<lambda>k. (lookup_code env tableName k = TCL_CONTINUE)
                  = (cassValueType (lookup_type env tableName k) = CASS_VALUE_TYPE_UNKNOWN))
       (pair_names listObjv)"

text \<open>
  The state after one iteration of the first loop that neither fails nor breaks, for the
  column \<open>k\<close>: the branch \<open>continue\<close> of a dropped column, the one of a column kept
  for the map, or the appending of a known column.
\<close>

definition column_step ::
  "casstcl_env \<Rightarrow> string \<Rightarrow> bool \<Rightarrow> string \<Rightarrow> upsert_state \<Rightarrow> upsert_state" where
  "column_step env tableName dropUnknown k s =
     (let s1 = s\<lparr>typeInfo := typeInfo s @ [lookup_type env tableName k],
                 tclReturn := lookup_code env tableName k,
                 typeLookups := typeLookups s @ [k]\<rparr>
      in if lookup_code env tableName k = TCL_CONTINUE then
           (if dropUnknown then s1\<lparr>tclReturn := TCL_OK\<rparr>
            else s1\<lparr>nUnknownToMap := nUnknownToMap s1 + 1, tclReturn := TCL_OK\<rparr>)
         else s1\<lparr>ds := ds s1 @ (if didOne s1 then '','' else []) @ k,
                 nFields := nFields s1 + 1, didOne := True\<rparr>)"

text \<open>
  The first loop runs to its end on a list: no lookup fails, and an unknown column meets
  one of the two policies.
\<close>

definition first_loop_completes ::
  "casstcl_env \<Rightarrow> string \<Rightarrow> string option \<Rightarrow> bool \<Rightarrow> string list \<Rightarrow> bool" where
  "first_loop_completes env tableName mapUnknown dropUnknown listObjv =
     list_all (\<lambda>k. lookup_code env tableName k \<noteq> TCL_ERROR
                  \<and> (lookup_code env tableName k = TCL_CONTINUE
                       \<longrightarrow> dropUnknown \<or> mapUnknown \<noteq> None))
       (pair_names listObjv)"

text \<open>
  Whether the map of unknown columns is made: drop-unknown is not set and the list has a
  pair the lookup reports as unknown. The number of fields of the statement, its column
  list (the name of the map column is the one given with map-unknown), and the text of
  the statement for a column list.
\<close>

definition map_triggered :: "casstcl_env \<Rightarrow> string \<Rightarrow> string list \<Rightarrow> bool \<Rightarrow> bool" where
  "map_triggered env tableName listObjv dropUnknown =
     (\<not> dropUnknown \<and> unrecognized_pairs env tableName listObjv \<noteq> [])"

definition field_count :: "casstcl_env \<Rightarrow> string \<Rightarrow> string list \<Rightarrow> bool \<Rightarrow> nat" where
  "field_count env tableName listObjv dropUnknown =
     length (recognized_pairs env tableName listObjv)
       + (if map_triggered env tableName listObjv dropUnknown then 1 else 0)"

definition column_list ::
  "casstcl_env \<Rightarrow> string \<Rightarrow> string list \<Rightarrow> string option \<Rightarrow> bool \<Rightarrow> string list" where
  "column_list env tableName listObjv mapUnknown dropUnknown =
     map fst (recognized_pairs env tableName listObjv)
       @ (if map_triggered env tableName listObjv dropUnknown
          then [case mapUnknown of None \<Rightarrow> [] | Some m \<Rightarrow> m] else [])"

definition upsert_query :: "string \<Rightarrow> string list \<Rightarrow> bool \<Rightarrow> string" where
  "upsert_query tableName columns ifNotExists =
     ''INSERT INTO '' @ tableName @ '' ('' @ comma_join columns @ '') values (''
       @ upsert_placeholders (length columns)
       @ (if ifNotExists then '') IF NOT EXISTS'' else '')'')"

text \<open>The map collection of the unknown pairs of a list.\<close>

definition unknown_map :: "casstcl_env \<Rightarrow> string \<Rightarrow> string list \<Rightarrow> CassCollection" where
  "unknown_map env tableName listObjv =
     \<lparr>collectionType = CASS_COLLECTION_TYPE_MAP,
      itemCount = length (unrecognized_pairs env tableName listObjv),
      items = text_items (unrecognized_pairs env tableName listObjv)\<rparr>"

text \<open>
  A valid input of the builder: the list has an even number of elements; every column
  resolves (\<open>TCL_OK\<close>) or is reported unknown while one of the two policies is set, the
  lookup keeping its contract; the consistency can be set; every value of a known column
  converts to the type of its column; and, when the map is made, its elements can be
  appended and the map can be bound.
\<close>

definition upsert_input_valid ::
  "casstcl_env \<Rightarrow> string \<Rightarrow> string list \<Rightarrow> nat option \<Rightarrow> string option \<Rightarrow> bool \<Rightarrow> bool" where
  "upsert_input_valid env tableName listObjv consistencyPtr mapUnknown dropUnknown =
     (even (length listObjv)
      \<and> list_all (\<lambda>k. lookup_code env tableName k = TCL_OK
                     \<or> (lookup_code env tableName k = TCL_CONTINUE
                         \<and> (dropUnknown \<or> mapUnknown \<noteq> None)))
           (pair_names listObjv)
      \<and> lookups_consistent env tableName listObjv
      \<and> consistencyCode env consistencyPtr = TCL_OK
      \<and> list_all (\<lambda>(k, v). fst (convertValue env (lookup_type env tableName k) v) = TCL_OK)
           (recognized_pairs env tableName listObjv)
      \<and> (dropUnknown
          \<or> (list_all (\<lambda>(k, v). appendError env CASS_VALUE_TYPE_TEXT k = CASS_OK
                               \<and> appendError env CASS_VALUE_TYPE_TEXT v = CASS_OK)
                (unrecognized_pairs env tableName listObjv)
              \<and> (unrecognized_pairs env tableName listObjv = []
                  \<or> bindCollectionError env (length (recognized_pairs env tableName listObjv))
                       = CASS_OK))))"

section \<open>Vocabulary for the events of a select\<close>

text \<open>
  The events after which the function issues no further execution and no further
  evaluation: an execution that failed or returned no result, and an evaluation of the
  code body that returned \<open>TCL_BREAK\<close> or \<open>TCL_ERROR\<close>.
\<close>

fun stops :: "select_event \<Rightarrow> bool" where
  "stops (Executed (FutureResult c r n)) = False"
| "stops (Executed f) = True"
| "stops (Evaluated c i) = (c = TCL_BREAK \<or> c = TCL_ERROR)"

text \<open>What the state of the function satisfies right after an event.\<close>

fun settled :: "select_event \<Rightarrow> select_state \<Rightarrow> bool" where
  "settled (Executed FutureNoResult) s =
     (selReturn s = TCL_ERROR \<and> objResult (selInterp s) = ''future has no result'')"
| "settled (Executed f) s = (if stops (Executed f) then selReturn s = TCL_ERROR else True)"
| "settled (Evaluated c i) s =
     (if c = TCL_BREAK then selReturn s = TCL_BREAK
      else if c = TCL_ERROR then
        selReturn s = TCL_ERROR
        \<and> errorInfo (selInterp s) = errorInfo i @ select_body_line (errorLine i)
      else True)"

definition select_inv :: "select_state \<Rightarrow> bool" where
  "select_inv s = (list_all (\<lambda>e. \<not> stops e) (butlast (events s))
     \<and> (events s = [] \<or> settled (last (events s)) s))"



fun evaluations :: "select_event list \<Rightarrow> nat" where
  "evaluations [] = 0"
| "evaluations (Executed f # es) = evaluations es"
| "evaluations (Evaluated c i # es) = Suc (evaluations es)"

section \<open>A concrete table for the examples\<close>

text \<open>
  Table \<open>ks.users\<close> with the columns \<open>id\<close> (uuid) and \<open>name\<close> (text). Every other
  column name is unknown. The value \<open>bad\<close> cannot be converted to any type.
\<close>

definition uuid_type :: casstcl_cassTypeInfo where
  "uuid_type = \<lparr>cassValueType = CASS_VALUE_TYPE_UUID,
     valueSubType1 = CASS_VALUE_TYPE_UNKNOWN, valueSubType2 = CASS_VALUE_TYPE_UNKNOWN\<rparr>"

definition text_type :: casstcl_cassTypeInfo where
  "text_type = \<lparr>cassValueType = CASS_VALUE_TYPE_TEXT,
     valueSubType1 = CASS_VALUE_TYPE_UNKNOWN, valueSubType2 = CASS_VALUE_TYPE_UNKNOWN\<rparr>"

definition unknown_type :: casstcl_cassTypeInfo where
  "unknown_type = \<lparr>cassValueType = CASS_VALUE_TYPE_UNKNOWN,
     valueSubType1 = CASS_VALUE_TYPE_UNKNOWN, valueSubType2 = CASS_VALUE_TYPE_UNKNOWN\<rparr>"

definition users_env :: casstcl_env where
  "users_env = \<lparr>
     columnTypes = (\<lambda>t c.
        if c = ''id'' then (TCL_OK, uuid_type, [])
        else if c = ''name'' then (TCL_OK, text_type, [])
        else (TCL_CONTINUE, unknown_type, [])),
     consistencyCode = (\<lambda>c. TCL_OK),
     convertValue = (\<lambda>ti v. if v = ''bad'' then (TCL_ERROR, ''cannot convert'')
                             else (TCL_OK, [])),
     typeName = (\<lambda>t. if t = CASS_VALUE_TYPE_UUID then ''uuid'' else ''text''),
     appendError = (\<lambda>t v. CASS_OK),
     bindCollectionError = (\<lambda>i. CASS_OK),
     errorMessage = (\<lambda>e. ''driver error''),
     valueToObj = (\<lambda>v. if cass_value_get_string v = ''bad'' then (TCL_ERROR, None, ''cannot convert'')
                        else (TCL_OK, Some (cass_value_get_string v), [])),
     validatorToType = (\<lambda>validator interp.
        if validator = ''org.apache.cassandra.db.marshal.UUIDType''
        then (TCL_OK, interp\<lparr>objResult := ''uuid''\<rparr>)
        else (TCL_ERROR, interp\<lparr>objResult := ''unrecognized validator''\<rparr>))\<rparr>"

definition users_row :: "string list" where
  "users_row = [''id'', ''u1'', ''name'', ''Bob'', ''nickname'', ''Bobby'']"

text \<open>
  A result of ten rows in two pages of five, each row with the single column \<open>id\<close>; an
  interpreter with no variables; a code body that returns \<open>TCL_BREAK\<close> on the row whose
  \<open>id\<close> is \<open>n\<close>, and one that fails there, the error being on line \<open>line\<close> of the body.
\<close>

definition id_row :: "string \<Rightarrow> (string \<times> CassValue) list" where
  "id_row n = [(''id'', CassValue CASS_VALUE_TYPE_INT False n)]"

definition second_page :: CassFuture where
  "second_page = FutureResult 1 (map id_row [''6'', ''7'', ''8'', ''9'', ''10'']) None"

definition ten_rows_two_pages :: CassFuture where
  "ten_rows_two_pages =
     FutureResult 1 (map id_row [''1'', ''2'', ''3'', ''4'', ''5'']) (Some second_page)"

definition empty_interp :: Tcl_Interp where
  "empty_interp = \<lparr>objResult = [], errorInfo = [], errorLine = 0,
     vars = (\<lambda>name1 name2. None), notArrays = {}\<rparr>"

definition row_interp :: "string \<Rightarrow> Tcl_Interp" where
  "row_interp n =
     empty_interp\<lparr>vars := (\<lambda>name1 name2. None)(''row'' := (\<lambda>name2. None)(''id'' \<mapsto> n))\<rparr>"

definition break_at :: "string \<Rightarrow> Tcl_Interp \<Rightarrow> int \<times> Tcl_Interp" where
  "break_at n interp =
     (if vars interp ''row'' ''id'' = Some n then (TCL_BREAK, interp) else (TCL_OK, interp))"

definition fail_at :: "string \<Rightarrow> int \<Rightarrow> Tcl_Interp \<Rightarrow> int \<times> Tcl_Interp" where
  "fail_at n line interp =
     (if vars interp ''row'' ''id'' = Some n then
        (TCL_ERROR, interp\<lparr>objResult := ''boom'', errorInfo := ''boom'', errorLine := line\<rparr>)
      else (TCL_OK, interp))"


text \<open>A session whose first page is followed by an execution that returns no result.\<close>

definition page_then_no_result :: CassFuture where
  "page_then_no_result = FutureResult 1 (map id_row [''1'', ''2'']) (Some FutureNoResult)"

text \<open>
  A schema with the table \<open>ks.users\<close>: the columns \<open>id\<close> and \<open>name\<close>, and between them
  an entry whose \<open>column_name\<close> is a null value of unknown type. The validator of \<open>id\<close>
  is resolved by the Tcl procedure, the one of \<open>name\<close> is in the cache.
\<close>

definition column_entry :: "CassValue \<Rightarrow> string \<Rightarrow> CassSchemaMeta" where
  "column_entry name validator =
     \<lparr>cass_schema_meta_type = CASS_SCHEMA_META_TYPE_COLUMN,
      cass_schema_meta_get_field =
        (\<lambda>f. if f = ''column_name'' then Some name
             else if f = ''validator''
               then Some (CassValue CASS_VALUE_TYPE_VARCHAR False validator)
             else None)\<rparr>"

definition users_columns :: CassTableMeta where
  "users_columns =
     [column_entry (CassValue CASS_VALUE_TYPE_VARCHAR False ''id'')
        ''org.apache.cassandra.db.marshal.UUIDType'',
      column_entry (CassValue CASS_VALUE_TYPE_UNKNOWN True [])
        ''org.apache.cassandra.db.marshal.UTF8Type'',
      column_entry (CassValue CASS_VALUE_TYPE_VARCHAR False ''name'')
        ''org.apache.cassandra.db.marshal.UTF8Type'']"

definition users_schema :: CassSchema where
  "users_schema =
     (\<lambda>keyspace. if keyspace = ''ks''
        then Some (\<lambda>table. if table = ''users'' then Some users_columns else None)
        else None)"

definition cache_interp :: Tcl_Interp where
  "cache_interp = empty_interp\<lparr>vars :=
     (\<lambda>name1 name2. None)(''::casstcl::validatorTypeLookupCache'' :=
        (\<lambda>name2. None)(''org.apache.cassandra.db.marshal.UTF8Type'' \<mapsto> ''text''))\<rparr>"


text \<open>The same row with a value for \<open>id\<close> that does not convert.\<close>

definition users_bad_row :: "string list" where
  "users_bad_row = [''id'', ''bad'', ''name'', ''Bob'', ''nickname'', ''Bobby'']"

section \<open>Evaluating the model\<close>

lemmas upsert_defs =
  casstcl_make_upsert_statement_def casstcl_typename_obj_to_cass_value_types_def
  casstcl_setStatementConsistency_def cass_statement_new_def casstcl_bind_tcl_obj_def
  upsert_bind_map_def cass_collection_new_def casstcl_append_tcl_obj_to_collection_def
  cass_statement_bind_collection_def casstcl_cass_error_to_tcl_def

lemmas users_defs =
  users_env_def users_row_def uuid_type_def text_type_def unknown_type_def
  lookup_code_def lookup_type_def unknown_column_message_def

section \<open>The unknown-column policies of the upsert builder\<close>

lemma upsert_columns_drop_ignores_map:
  "upsert_columns env t m True kvs s = upsert_columns env t None True kvs s"
  by (induction env t m True kvs s rule: upsert_columns.induct)
     (auto simp: Let_def split: prod.splits)

lemma upsert_columns_drop_no_unknown_to_map:
  "nUnknownToMap (upsert_columns env t m True kvs s) = nUnknownToMap s"
  by (induction env t m True kvs s rule: upsert_columns.induct)
     (auto simp: Let_def split: prod.splits)

text \<open>
  C1, as stated, fails: with both options set, the unknown column \<open>nickname\<close> is dropped.
  The statement has the two known columns only, and no map is bound.
\<close>

theorem upsert_drop_and_map_counterexample:
  "casstcl_make_upsert_statement users_env ''ks.users'' (TclList users_row) None
       (Some ''extra'') True False =
     Inr \<lparr>returnCode = TCL_OK, resultText = [],
          statementPtr = Some \<lparr>query = ''INSERT INTO ks.users (id,name) values (?,?)'',
            parameterCount = 2, consistency = None,
            binds = [(0, BoundValue uuid_type ''u1''), (1, BoundValue text_type ''Bob'')]\<rparr>,
          constructed = Some \<lparr>query = ''INSERT INTO ks.users (id,name) values (?,?)'',
            parameterCount = 2, consistency = None,
            binds = [(0, BoundValue uuid_type ''u1''), (1, BoundValue text_type ''Bob'')]\<rparr>,
          lookedUp = [''id'', ''name'', ''nickname'']\<rparr>"
  by (simp add: upsert_defs users_defs)

text \<open>
  C1, amended: when drop-unknown is set, drop-unknown takes precedence. The map-unknown
  option has no effect at all: the builder returns what it returns without it, so the
  unknown columns are dropped and no synthetic map column is produced.
\<close>

theorem upsert_drop_takes_precedence:
  "casstcl_make_upsert_statement env tableName listObj consistencyPtr (Some m) True ifNotExists
     = casstcl_make_upsert_statement env tableName listObj consistencyPtr None True ifNotExists"
  by (cases listObj)
     (simp_all add: casstcl_make_upsert_statement_def
        upsert_columns_drop_ignores_map[of env tableName "Some m"]
        upsert_columns_drop_no_unknown_to_map)

section \<open>Argument errors of the upsert builder\<close>

text \<open>
  C5: a key-value list with an odd number of elements makes the builder fail with the
  argument error. No statement is produced or even created, and no column name has been
  handed to the type lookup.
\<close>

theorem upsert_odd_list_rejected:
  "odd (length listObjv) \<Longrightarrow>
   casstcl_make_upsert_statement env tableName (TclList listObjv) consistencyPtr mapUnknown
       dropUnknown ifNotExists =
     Inr \<lparr>returnCode = TCL_ERROR,
          resultText = ''key-value pair list must contain an even number of elements'',
          statementPtr = None, constructed = None, lookedUp = []\<rparr>"
  by (simp add: casstcl_make_upsert_statement_def)

theorem upsert_odd_list_rejected_witness:
  "odd (length [''id'', ''u1'', ''name'']) \<and>
   casstcl_make_upsert_statement users_env ''ks.users'' (TclList [''id'', ''u1'', ''name''])
       None (Some ''extra'') False False =
     Inr \<lparr>returnCode = TCL_ERROR,
          resultText = ''key-value pair list must contain an even number of elements'',
          statementPtr = None, constructed = None, lookedUp = []\<rparr>"
  using upsert_odd_list_rejected [of "[''id'', ''u1'', ''name'']" users_env "''ks.users''"
      None "Some ''extra''" False False]
  by simp

section \<open>Unknown columns without a policy\<close>

lemma upsert_columns_no_map_unknown:
  "nUnknownToMap (upsert_columns env t None d kvs s) = nUnknownToMap s"
  by (induction env t "None :: string option" d kvs s rule: upsert_columns.induct)
     (auto simp: Let_def split: prod.splits)

lemma upsert_columns_first_unknown:
  assumes "find (\<lambda>k. lookup_code env t k = TCL_CONTINUE) (pair_names kvs) = Some k"
    and "\<forall>k' \<in> set (takeWhile (\<lambda>k. lookup_code env t k \<noteq> TCL_CONTINUE) (pair_names kvs)).
           lookup_code env t k' \<noteq> TCL_ERROR"
  shows "tclReturn (upsert_columns env t None False kvs s) = TCL_ERROR
       \<and> interpResult (upsert_columns env t None False kvs s) = unknown_column_message k t
       \<and> typeLookups (upsert_columns env t None False kvs s) =
           typeLookups s
             @ takeWhile (\<lambda>k. lookup_code env t k \<noteq> TCL_CONTINUE) (pair_names kvs) @ [k]"
  using assms
proof (induction env t "None :: string option" False kvs s rule: upsert_columns.induct)
  case (1 env tableName k0 v rest s)
  then show ?case
    by (auto simp: Let_def lookup_code_def casstcl_typename_obj_to_cass_value_types_def
          unknown_column_message_def split: prod.splits if_splits)
qed simp_all

text \<open>
  C6: neither drop-unknown nor map-unknown is set, and \<open>k\<close> is the first column of the
  list that the schema does not know, the columns before it resolving without an error.
  The builder fails with the unknown-column error, whose message names the column \<open>k\<close>
  and the table; no statement is produced or created, and the lookup stopped at \<open>k\<close>.
\<close>

theorem upsert_unknown_column_rejected:
  assumes "even (length listObjv)"
    and "find (\<lambda>k. lookup_code env tableName k = TCL_CONTINUE) (pair_names listObjv) = Some k"
    and "\<forall>k' \<in> set (takeWhile (\<lambda>k. lookup_code env tableName k \<noteq> TCL_CONTINUE)
                        (pair_names listObjv)).
           lookup_code env tableName k' \<noteq> TCL_ERROR"
  shows "casstcl_make_upsert_statement env tableName (TclList listObjv) consistencyPtr None
           False ifNotExists =
     Inr \<lparr>returnCode = TCL_ERROR, resultText = unknown_column_message k tableName,
          statementPtr = None, constructed = None,
          lookedUp = takeWhile (\<lambda>k. lookup_code env tableName k \<noteq> TCL_CONTINUE)
                       (pair_names listObjv) @ [k]\<rparr>"
  using assms(1) upsert_columns_first_unknown[OF assms(2,3)]
  by (simp add: casstcl_make_upsert_statement_def upsert_columns_no_map_unknown Let_def)

theorem upsert_unknown_column_rejected_witness:
  "even (length users_row)
   \<and> find (\<lambda>k. lookup_code users_env ''ks.users'' k = TCL_CONTINUE) (pair_names users_row)
       = Some ''nickname''
   \<and> list_all (\<lambda>k'. lookup_code users_env ''ks.users'' k' \<noteq> TCL_ERROR)
       (takeWhile (\<lambda>k. lookup_code users_env ''ks.users'' k \<noteq> TCL_CONTINUE)
          (pair_names users_row))
   \<and> casstcl_make_upsert_statement users_env ''ks.users'' (TclList users_row) None None
           False True =
     Inr \<lparr>returnCode = TCL_ERROR,
          resultText = ''unknown column '' @ [CHR 0x27] @ ''nickname'' @ [CHR 0x27]
             @ '' in upsert for table '' @ [CHR 0x27] @ ''ks.users'' @ [CHR 0x27],
          statementPtr = None, constructed = None,
          lookedUp = [''id'', ''name'', ''nickname'']\<rparr>"
  using upsert_unknown_column_rejected
    [of users_row users_env "''ks.users''" "''nickname''" None True]
  by (simp add: users_defs)

section \<open>The events of a select\<close>

lemmas select_defs =
  casstcl_select_def casstcl_setStatementConsistency_def cass_statement_new_def
  casstcl_cass_value_to_tcl_obj_def casstcl_future_error_to_tcl_def
  Tcl_ResetResult_def Tcl_AppendResult_def Tcl_UnsetVar2_def Tcl_UnsetVar_def
  Tcl_SetVar2Ex_def Tcl_AddErrorInfo_def Tcl_GetErrorLine_def

lemmas select_examples =
  users_env_def id_row_def second_page_def ten_rows_two_pages_def empty_interp_def
  row_interp_def break_at_def fail_at_def page_then_no_result_def

lemma select_columns_events [simp]:
  "events (select_columns env a cols s) = events s"
  by (induction env a cols s rule: select_columns.induct)
     (auto simp: Let_def split: prod.splits option.splits)

lemma select_columns_columnCount [simp]:
  "columnCount (select_columns env a cols s) = columnCount s"
  by (induction env a cols s rule: select_columns.induct)
     (auto simp: Let_def split: prod.splits option.splits)

lemma not_stops_settled: "\<not> stops e \<Longrightarrow> settled e s"
  by (cases e; cases "case e of Executed f \<Rightarrow> f") (auto split: if_splits)

lemma settled_stops_not_ok: "settled e s \<Longrightarrow> stops e \<Longrightarrow> selReturn s \<noteq> TCL_OK"
  by (cases e; cases "case e of Executed f \<Rightarrow> f") (auto split: if_splits)

text \<open>The loop over the rows of a page keeps the invariant.\<close>

lemma select_rows_inv:
  "list_all (\<lambda>e. \<not> stops e) (events s) \<Longrightarrow> select_inv (select_rows env a code rows s)"
proof (induction env a code rows s rule: select_rows.induct)
  case (1 env arrayName codeObj s)
  then show ?case
    by (cases "events s" rule: rev_cases) (auto simp: select_inv_def not_stops_settled)
next
  case (2 env arrayName codeObj row rest s)
  obtain c i1 where ev:
    "codeObj (selInterp (select_columns env arrayName (take (nat (columnCount s)) row) s))
       = (c, i1)"
    by (cases "codeObj (selInterp (select_columns env arrayName
                 (take (nat (columnCount s)) row) s))")
  show ?case
  proof (cases "c \<noteq> TCL_OK \<and> c \<noteq> TCL_CONTINUE")
    case True
    then show ?thesis using ev 2(2)
      by (auto simp: select_inv_def Let_def Tcl_AddErrorInfo_def Tcl_GetErrorLine_def)
  next
    case False
    then show ?thesis using ev 2
      by (auto simp: Let_def)
  qed
qed

lemma select_inv_ok_running:
  assumes "select_inv s" "selReturn s = TCL_OK"
  shows "list_all (\<lambda>e. \<not> stops e) (events s)"
proof (cases "events s" rule: rev_cases)
  case Nil
  then show ?thesis by simp
next
  case (snoc es e)
  with assms have "list_all (\<lambda>e. \<not> stops e) es" "settled e s"
    by (auto simp: select_inv_def)
  moreover have "\<not> stops e"
    using settled_stops_not_ok[OF \<open>settled e s\<close>] assms(2) by auto
  ultimately show ?thesis using snoc by simp
qed

text \<open>The loop over the pages keeps the invariant.\<close>

lemma select_pages_inv:
  "list_all (\<lambda>e. \<not> stops e) (events s) \<Longrightarrow> select_inv (select_pages env a code f s)"
proof (induction env a code f s rule: select_pages.induct)
  case (1 env arrayName codeObj rc message s)
  then show ?case
    by (simp add: select_inv_def casstcl_future_error_to_tcl_def)
next
  case (2 env arrayName codeObj s)
  then show ?case
    by (simp add: select_inv_def Tcl_AppendResult_def Tcl_ResetResult_def)
next
  case (3 env arrayName codeObj count rows s)
  then show ?case
    by (simp add: Let_def select_rows_inv)
next
  case (4 env arrayName codeObj count rows nextFuture s)
  let ?s1 = "s\<lparr>events := events s @ [Executed (FutureResult count rows (Some nextFuture))]\<rparr>"
  let ?s2 = "if columnCount ?s1 = - 1 then ?s1\<lparr>columnCount := count\<rparr> else ?s1"
  let ?s3 = "select_rows env arrayName codeObj rows ?s2"
  have run: "list_all (\<lambda>e. \<not> stops e) (events ?s2)" using 4(2) by simp
  have inv3: "select_inv ?s3" by (rule select_rows_inv[OF run])
  show ?case
  proof (cases "selReturn ?s3 = TCL_OK")
    case True
    have "select_inv (select_pages env arrayName codeObj nextFuture ?s3)"
      by (rule 4(1)[OF refl refl refl True select_inv_ok_running[OF inv3 True]])
    then show ?thesis using True by (simp add: Let_def)
  next
    case False
    then show ?thesis using inv3 by (simp add: Let_def)
  qed
qed

text \<open>An event that stops the function is the last event, and the state is settled.\<close>

lemma select_inv_stop_is_last:
  assumes "select_inv s" "events s = pre @ e # post" "stops e"
  shows "post = [] \<and> settled e s"
proof -
  have "post = []"
  proof (rule ccontr)
    assume "post \<noteq> []"
    then have "butlast (events s) = pre @ e # butlast post"
      using assms(2) by (simp add: butlast_append)
    then show False using assms(1,3) by (simp add: select_inv_def)
  qed
  then show ?thesis using assms(1,2) by (simp add: select_inv_def)
qed

text \<open>
  What a call returns, in terms of the state the page loop ends in: either the
  consistency could not be set and there is no event, or the loop ran from the initial
  state and its final state satisfies the invariant.
\<close>

lemma casstcl_select_final:
  assumes "selectEvents (casstcl_select env session interp q a code ps c) \<noteq> []"
  shows "\<exists>s. select_inv s
    \<and> selectEvents (casstcl_select env session interp q a code ps c) = events s
    \<and> selectCode (casstcl_select env session interp q a code ps c)
        = (if selReturn s = TCL_BREAK then TCL_OK else selReturn s)
    \<and> errorInfo (selectInterp (casstcl_select env session interp q a code ps c))
        = errorInfo (selInterp s)
    \<and> objResult (selectInterp (casstcl_select env session interp q a code ps c))
        = objResult (selInterp s)"
proof -
  let ?s0 = "\<lparr>selReturn = TCL_OK, columnCount = - 1, selInterp = interp, events = [],
              rowsEvaluated = []\<rparr>"
  let ?s = "select_pages env a code session ?s0"
  have ok: "consistencyCode env c = TCL_OK"
    using assms
    by (auto simp: casstcl_select_def casstcl_setStatementConsistency_def Let_def
          split: if_splits)
  have "select_inv ?s" by (rule select_pages_inv) simp
  then show ?thesis using ok
    by (intro exI[of _ ?s])
       (simp add: casstcl_select_def casstcl_setStatementConsistency_def Let_def
          Tcl_UnsetVar_def)
qed

text \<open>The rows on which the code body has been evaluated.\<close>

lemma select_columns_rowsEvaluated [simp]:
  "rowsEvaluated (select_columns env a cols s) = rowsEvaluated s"
  by (induction env a cols s rule: select_columns.induct)
     (auto simp: Let_def split: prod.splits option.splits)

lemma evaluations_append [simp]:
  "evaluations (es @ fs) = evaluations es + evaluations fs"
  by (induction es rule: evaluations.induct) simp_all




section \<open>Loop control of the row callback\<close>




section \<open>Errors of a select\<close>

text \<open>
  C7, as stated, fails: the body fails on the second row, and the decoration added to the
  error information names line 1, the line of the body on which the error occurred. It
  does not name the row index 2.
\<close>

theorem select_error_decoration_counterexample:
  "selectEvents (casstcl_select users_env ten_rows_two_pages empty_interp
       ''SELECT id FROM t'' ''row'' (fail_at ''2'' 1) 5 None)
     = [Executed ten_rows_two_pages, Evaluated TCL_OK (row_interp ''1''),
        Evaluated TCL_ERROR
          ((row_interp ''2'')\<lparr>objResult := ''boom'', errorInfo := ''boom'', errorLine := 1\<rparr>)]
   \<and> errorInfo (selectInterp (casstcl_select users_env ten_rows_two_pages empty_interp
       ''SELECT id FROM t'' ''row'' (fail_at ''2'' 1) 5 None))
     = ''boom'' @ [CHR 0x0A] @ ''    ('' @ [CHR 0x22] @ ''select'' @ [CHR 0x22]
         @ '' body line 1)''
   \<and> errorInfo (selectInterp (casstcl_select users_env ten_rows_two_pages empty_interp
       ''SELECT id FROM t'' ''row'' (fail_at ''2'' 1) 5 None))
     \<noteq> ''boom'' @ select_body_line 2"
  by (simp add: select_defs select_examples Let_def select_body_line_def sprintf_d_def)

text \<open>
  C7, amended: when an evaluation of the code body returns \<open>TCL_ERROR\<close>, that evaluation
  is the last event of the call, the call returns \<open>TCL_ERROR\<close>, and the error information
  is the one the body left, extended by \<open>("select" body line N)\<close>, where \<open>N\<close> is the
  interpreter's error line for that failure: the line within the body, not the row index.
\<close>

theorem select_error_ends_query:
  assumes "selectEvents (casstcl_select env session interp q a code ps c)
             = pre @ Evaluated TCL_ERROR i # post"
  shows "post = []
       \<and> selectCode (casstcl_select env session interp q a code ps c) = TCL_ERROR
       \<and> errorInfo (selectInterp (casstcl_select env session interp q a code ps c))
           = errorInfo i @ select_body_line (errorLine i)"
proof -
  have "selectEvents (casstcl_select env session interp q a code ps c) \<noteq> []"
    using assms by simp
  from casstcl_select_final[OF this] obtain s where s:
    "select_inv s"
    "selectEvents (casstcl_select env session interp q a code ps c) = events s"
    "selectCode (casstcl_select env session interp q a code ps c)
       = (if selReturn s = TCL_BREAK then TCL_OK else selReturn s)"
    "errorInfo (selectInterp (casstcl_select env session interp q a code ps c))
       = errorInfo (selInterp s)"
    by blast
  have ev: "events s = pre @ Evaluated TCL_ERROR i # post"
    using s(2) assms by simp
  have "post = [] \<and> settled (Evaluated TCL_ERROR i) s"
    by (rule select_inv_stop_is_last[OF s(1) ev]) simp
  then show ?thesis using s(3,4) by simp
qed

theorem select_error_ends_query_witness:
  "selectEvents (casstcl_select users_env ten_rows_two_pages empty_interp
       ''SELECT id FROM t'' ''row'' (fail_at ''4'' 7) 5 None)
     = [Executed ten_rows_two_pages, Evaluated TCL_OK (row_interp ''1''),
        Evaluated TCL_OK (row_interp ''2''), Evaluated TCL_OK (row_interp ''3'')]
       @ Evaluated TCL_ERROR
           ((row_interp ''4'')\<lparr>objResult := ''boom'', errorInfo := ''boom'', errorLine := 7\<rparr>)
         # []
   \<and> selectCode (casstcl_select users_env ten_rows_two_pages empty_interp
       ''SELECT id FROM t'' ''row'' (fail_at ''4'' 7) 5 None) = TCL_ERROR
   \<and> errorInfo (selectInterp (casstcl_select users_env ten_rows_two_pages empty_interp
       ''SELECT id FROM t'' ''row'' (fail_at ''4'' 7) 5 None))
     = ''boom'' @ [CHR 0x0A] @ ''    ('' @ [CHR 0x22] @ ''select'' @ [CHR 0x22]
         @ '' body line 7)''"
proof -
  have h: "selectEvents (casstcl_select users_env ten_rows_two_pages empty_interp
       ''SELECT id FROM t'' ''row'' (fail_at ''4'' 7) 5 None)
     = [Executed ten_rows_two_pages, Evaluated TCL_OK (row_interp ''1''),
        Evaluated TCL_OK (row_interp ''2''), Evaluated TCL_OK (row_interp ''3'')]
       @ Evaluated TCL_ERROR
           ((row_interp ''4'')\<lparr>objResult := ''boom'', errorInfo := ''boom'', errorLine := 7\<rparr>)
         # []"
    by (simp add: select_defs select_examples Let_def)
  show ?thesis using h select_error_ends_query[OF h]
    by (simp add: row_interp_def empty_interp_def select_body_line_def sprintf_d_def)
qed

text \<open>
  C8: when an execution succeeds without a result, that execution is the last event of
  the call: the code body is not evaluated for it and no page is fetched after it. The
  call returns \<open>TCL_ERROR\<close> with the message \<open>future has no result\<close>.
\<close>

theorem select_no_result_is_error:
  assumes "selectEvents (casstcl_select env session interp q a code ps c)
             = pre @ Executed FutureNoResult # post"
  shows "post = []
       \<and> selectCode (casstcl_select env session interp q a code ps c) = TCL_ERROR
       \<and> objResult (selectInterp (casstcl_select env session interp q a code ps c))
           = ''future has no result''"
proof -
  have "selectEvents (casstcl_select env session interp q a code ps c) \<noteq> []"
    using assms by simp
  from casstcl_select_final[OF this] obtain s where s:
    "select_inv s"
    "selectEvents (casstcl_select env session interp q a code ps c) = events s"
    "selectCode (casstcl_select env session interp q a code ps c)
       = (if selReturn s = TCL_BREAK then TCL_OK else selReturn s)"
    "objResult (selectInterp (casstcl_select env session interp q a code ps c))
       = objResult (selInterp s)"
    by blast
  have ev: "events s = pre @ Executed FutureNoResult # post"
    using s(2) assms by simp
  have "post = [] \<and> settled (Executed FutureNoResult) s"
    by (rule select_inv_stop_is_last[OF s(1) ev]) simp
  then show ?thesis using s(3,4) by simp
qed

theorem select_no_result_is_error_witness:
  "selectEvents (casstcl_select users_env page_then_no_result empty_interp
       ''SELECT id FROM t'' ''row'' (break_at ''3'') 5 None)
     = [Executed page_then_no_result, Evaluated TCL_OK (row_interp ''1''),
        Evaluated TCL_OK (row_interp ''2'')] @ Executed FutureNoResult # []
   \<and> selectCode (casstcl_select users_env page_then_no_result empty_interp
       ''SELECT id FROM t'' ''row'' (break_at ''3'') 5 None) = TCL_ERROR
   \<and> objResult (selectInterp (casstcl_select users_env page_then_no_result empty_interp
       ''SELECT id FROM t'' ''row'' (break_at ''3'') 5 None)) = ''future has no result''"
proof -
  have h: "selectEvents (casstcl_select users_env page_then_no_result empty_interp
       ''SELECT id FROM t'' ''row'' (break_at ''3'') 5 None)
     = [Executed page_then_no_result, Evaluated TCL_OK (row_interp ''1''),
        Evaluated TCL_OK (row_interp ''2'')] @ Executed FutureNoResult # []"
    by (simp add: select_defs select_examples Let_def)
  show ?thesis using h select_no_result_is_error[OF h] by simp
qed

section \<open>Column entries without a name\<close>

lemmas columns_defs =
  casstcl_list_columns_def Tcl_ListObjAppendElement_def Tcl_GetVar2Ex_def
  Tcl_ResetResult_def Tcl_AppendResult_def

lemmas columns_examples =
  users_env_def column_entry_def users_columns_def users_schema_def cache_interp_def
  empty_interp_def








text \<open>
  The table \<open>ks.users\<close> with an entry without a name between \<open>id\<close> and \<open>name\<close>,
  listed without and with types.
\<close>

lemma list_columns_users_example:
  "casstcl_list_columns users_env users_schema cache_interp ''ks'' ''users'' False
     = Inr \<lparr>columnsCode = TCL_OK, objPtr = Some [''id'', ''name''],
            columnsInterp = cache_interp\<rparr>"
  "casstcl_list_columns users_env users_schema cache_interp ''ks'' ''users'' True
     = Inr \<lparr>columnsCode = TCL_OK, objPtr = Some [''id'', ''uuid'', ''name'', ''text''],
            columnsInterp = cache_interp\<rparr>"
  by (simp_all add: columns_defs columns_examples)

section \<open>The first loop of the upsert builder\<close>

lemma first_loop_completes_step:
  "first_loop_completes env t m d (k # v # rest) =
     (lookup_code env t k \<noteq> TCL_ERROR \<and> (lookup_code env t k = TCL_CONTINUE \<longrightarrow> d \<or> m \<noteq> None)
      \<and> first_loop_completes env t m d rest)"
  by (simp add: first_loop_completes_def)

lemma upsert_columns_step:
  assumes "lookup_code env t k \<noteq> TCL_ERROR"
      and "lookup_code env t k = TCL_CONTINUE \<longrightarrow> d \<or> m \<noteq> None"
  shows "upsert_columns env t m d (k # v # rest) s
           = upsert_columns env t m d rest (column_step env t d k s)"
  using assms
  by (auto simp: Let_def casstcl_typename_obj_to_cass_value_types_def column_step_def
        lookup_code_def lookup_type_def split: prod.splits)

lemma column_step_fields:
  "typeInfo (column_step env t d k s) = typeInfo s @ [lookup_type env t k]"
  "typeLookups (column_step env t d k s) = typeLookups s @ [k]"
  "interpResult (column_step env t d k s) = interpResult s"
  "nFields (column_step env t d k s)
     = nFields s + (if lookup_code env t k = TCL_CONTINUE then 0 else 1)"
  "nUnknownToMap (column_step env t d k s)
     = nUnknownToMap s + (if lookup_code env t k = TCL_CONTINUE \<and> \<not> d then 1 else 0)"
  "didOne (column_step env t d k s) = (didOne s \<or> lookup_code env t k \<noteq> TCL_CONTINUE)"
  "ds (column_step env t d k s)
     = ds s @ (if lookup_code env t k = TCL_CONTINUE then []
               else (if didOne s then '','' else []) @ k)"
  "tclReturn (column_step env t d k s)
     = (if lookup_code env t k = TCL_CONTINUE then TCL_OK else lookup_code env t k)"
  by (simp_all add: column_step_def Let_def)

lemma upsert_columns_complete:
  assumes "first_loop_completes env t m d kvs"
  shows "typeInfo (upsert_columns env t m d kvs s)
           = typeInfo s @ map (lookup_type env t) (pair_names kvs)"
    and "typeLookups (upsert_columns env t m d kvs s) = typeLookups s @ pair_names kvs"
    and "interpResult (upsert_columns env t m d kvs s) = interpResult s"
    and "nFields (upsert_columns env t m d kvs s)
           = nFields s + length (recognized_pairs env t kvs)"
    and "nUnknownToMap (upsert_columns env t m d kvs s)
           = nUnknownToMap s + (if d then 0 else length (unrecognized_pairs env t kvs))"
    and "didOne (upsert_columns env t m d kvs s)
           = (didOne s \<or> recognized_pairs env t kvs \<noteq> [])"
  using assms
  by (induction kvs arbitrary: s rule: pair_names.induct)
     (simp_all add: first_loop_completes_step upsert_columns_step column_step_fields
        del: upsert_columns.simps(1))

lemma upsert_columns_ds:
  assumes "first_loop_completes env t m d kvs"
  shows "ds (upsert_columns env t m d kvs s)
           = ds s @ (if didOne s \<and> recognized_pairs env t kvs \<noteq> [] then '','' else [])
               @ comma_join (map fst (recognized_pairs env t kvs))"
  using assms
proof (induction kvs arbitrary: s rule: pair_names.induct)
  case (1 k v rest)
  then show ?case
    by (cases "recognized_pairs env t rest")
       (simp_all add: first_loop_completes_step upsert_columns_step column_step_fields
          del: upsert_columns.simps(1))
qed simp_all

lemma upsert_columns_incomplete:
  assumes "\<not> first_loop_completes env t m d kvs"
  shows "tclReturn (upsert_columns env t m d kvs s) = TCL_ERROR"
  using assms
proof (induction kvs arbitrary: s rule: pair_names.induct)
  case (1 k v rest)
  show ?case
  proof (cases "lookup_code env t k \<noteq> TCL_ERROR
                \<and> (lookup_code env t k = TCL_CONTINUE \<longrightarrow> d \<or> m \<noteq> None)")
    case True
    then show ?thesis using 1
      by (simp add: first_loop_completes_step upsert_columns_step del: upsert_columns.simps(1))
  next
    case False
    then show ?thesis
      by (auto simp: Let_def casstcl_typename_obj_to_cass_value_types_def lookup_code_def
            split: prod.splits)
  qed
qed (simp_all add: first_loop_completes_def)

lemma upsert_columns_ok:
  assumes "list_all (\<lambda>k. lookup_code env t k = TCL_OK
                      \<or> (lookup_code env t k = TCL_CONTINUE \<and> (d \<or> m \<noteq> None)))
             (pair_names kvs)"
     and "tclReturn s = TCL_OK"
  shows "tclReturn (upsert_columns env t m d kvs s) = TCL_OK"
  using assms
proof (induction kvs arbitrary: s rule: pair_names.induct)
  case (1 k v rest)
  have "tclReturn (column_step env t d k s) = TCL_OK"
    using 1(2) by (auto simp: column_step_fields)
  moreover have "upsert_columns env t m d (k # v # rest) s
           = upsert_columns env t m d rest (column_step env t d k s)"
    using 1(2) by (intro upsert_columns_step) auto
  ultimately show ?case using 1 by (simp del: upsert_columns.simps(1))
qed simp_all

section \<open>The binding pass of the upsert builder\<close>

lemma lookups_consistent_step:
  "lookups_consistent env t (k # v # rest) =
     ((lookup_code env t k = TCL_CONTINUE)
         = (cassValueType (lookup_type env t k) = CASS_VALUE_TYPE_UNKNOWN)
      \<and> lookups_consistent env t rest)"
  by (simp add: lookups_consistent_def)

lemma bind_fields_skip:
  "cassValueType ti = CASS_VALUE_TYPE_UNKNOWN \<Longrightarrow>
   upsert_bind_fields env t n (k # v # rest) (ti # tis) b = upsert_bind_fields env t n rest tis b"
  by simp

lemma bind_fields_bind:
  assumes "cassValueType ti \<noteq> CASS_VALUE_TYPE_UNKNOWN" "bindField b < n"
  shows "upsert_bind_fields env t n (k # v # rest) (ti # tis) b =
     (let b1 = b\<lparr>statement := (statement b)\<lparr>binds := binds (statement b)
                                   @ [(bindField b, BoundValue ti v)]\<rparr>,
                 bindField := bindField b + 1,
                 bindReturn := fst (convertValue env ti v)\<rparr>
      in if fst (convertValue env ti v) = TCL_ERROR then
           Inr (b1\<lparr>bindResult := snd (convertValue env ti v)
                     @ '' while constructing upsert statement, while attempting to bind field ''
                     @ [CHR 0x27] @ k @ [CHR 0x27] @ '' of type '' @ [CHR 0x27]
                     @ typeName env (cassValueType ti) @ [CHR 0x27] @ '', value ''
                     @ [CHR 0x27] @ v @ [CHR 0x27] @ '' referencing table ''
                     @ [CHR 0x27] @ t @ [CHR 0x27]\<rparr>)
         else upsert_bind_fields env t n rest tis b1)"
  using assms
  by (simp add: Let_def casstcl_bind_tcl_obj_def split: prod.splits)

text \<open>
  The binding loop under the lookup contract: it never fails its assertion, it binds the
  values of the first \<open>j\<close> recognized pairs at the positions following \<open>bindField\<close>, and
  it stops before the last recognized pair only on a bind that returns \<open>TCL_ERROR\<close>.
\<close>

lemma bind_fields_general:
  assumes "lookups_consistent env t kvs"
      and "bindField b + length (recognized_pairs env t kvs) \<le> n"
  shows "\<exists>b' j. upsert_bind_fields env t n kvs (map (lookup_type env t) (pair_names kvs)) b
                  = Inr b'
      \<and> j \<le> length (recognized_pairs env t kvs)
      \<and> bindField b' = bindField b + j
      \<and> statement b' = (statement b)\<lparr>binds := binds (statement b)
            @ value_binds env t (bindField b) (take j (recognized_pairs env t kvs))\<rparr>
      \<and> (j = length (recognized_pairs env t kvs) \<or> bindReturn b' = TCL_ERROR)
      \<and> (list_all (\<lambda>(k, v). fst (convertValue env (lookup_type env t k) v) = TCL_OK)
             (recognized_pairs env t kvs)
           \<longrightarrow> j = length (recognized_pairs env t kvs) \<and> bindResult b' = bindResult b
             \<and> (bindReturn b = TCL_OK \<longrightarrow> bindReturn b' = TCL_OK))"
  using assms
proof (induction kvs arbitrary: b rule: pair_names.induct)
  case (1 k v rest)
  let ?ti = "lookup_type env t k"
  have cons: "lookups_consistent env t rest"
    and kt: "(lookup_code env t k = TCL_CONTINUE) = (cassValueType ?ti = CASS_VALUE_TYPE_UNKNOWN)"
    using 1(2) by (simp_all add: lookups_consistent_step)
  show ?case
  proof (cases "lookup_code env t k = TCL_CONTINUE")
    case True
    then have rec: "recognized_pairs env t (k # v # rest) = recognized_pairs env t rest"
      by simp
    have step: "upsert_bind_fields env t n (k # v # rest)
                  (map (lookup_type env t) (pair_names (k # v # rest))) b
             = upsert_bind_fields env t n rest (map (lookup_type env t) (pair_names rest)) b"
      using True kt by simp
    show ?thesis
      unfolding rec step using 1(1)[OF cons, of b] 1(3) rec by simp
  next
    case False
    then have rec: "recognized_pairs env t (k # v # rest) = (k, v) # recognized_pairs env t rest"
      by simp
    have known: "cassValueType ?ti \<noteq> CASS_VALUE_TYPE_UNKNOWN" using False kt by simp
    have lt: "bindField b < n" using 1(3) rec by simp
    let ?b1 = "b\<lparr>statement := (statement b)\<lparr>binds := binds (statement b)
                                   @ [(bindField b, BoundValue ?ti v)]\<rparr>,
                 bindField := bindField b + 1,
                 bindReturn := fst (convertValue env ?ti v)\<rparr>"
    show ?thesis
    proof (cases "fst (convertValue env ?ti v) = TCL_ERROR")
      case True
      have "upsert_bind_fields env t n (k # v # rest)
                  (map (lookup_type env t) (pair_names (k # v # rest))) b
             = Inr (?b1\<lparr>bindResult := snd (convertValue env ?ti v)
                     @ '' while constructing upsert statement, while attempting to bind field ''
                     @ [CHR 0x27] @ k @ [CHR 0x27] @ '' of type '' @ [CHR 0x27]
                     @ typeName env (cassValueType ?ti) @ [CHR 0x27] @ '', value ''
                     @ [CHR 0x27] @ v @ [CHR 0x27] @ '' referencing table ''
                     @ [CHR 0x27] @ t @ [CHR 0x27]\<rparr>)"
        using True bind_fields_bind[OF known lt, of env t k v rest "map (lookup_type env t) (pair_names rest)"]
        by (simp add: Let_def)
      then show ?thesis
        unfolding rec using True
        by (intro exI[of _ "?b1\<lparr>bindResult := _\<rparr>"] exI[of _ 1]) simp
    next
      case ok: False
      have step: "upsert_bind_fields env t n (k # v # rest)
                  (map (lookup_type env t) (pair_names (k # v # rest))) b
             = upsert_bind_fields env t n rest (map (lookup_type env t) (pair_names rest)) ?b1"
        using ok bind_fields_bind[OF known lt, of env t k v rest "map (lookup_type env t) (pair_names rest)"]
        by (simp add: Let_def)
      have le: "bindField ?b1 + length (recognized_pairs env t rest) \<le> n"
        using 1(3) rec by simp
      from 1(1)[OF cons le] obtain b' j where IH:
        "upsert_bind_fields env t n rest (map (lookup_type env t) (pair_names rest)) ?b1 = Inr b'"
        "j \<le> length (recognized_pairs env t rest)"
        "bindField b' = bindField ?b1 + j"
        "statement b' = (statement ?b1)\<lparr>binds := binds (statement ?b1)
            @ value_binds env t (bindField ?b1) (take j (recognized_pairs env t rest))\<rparr>"
        "j = length (recognized_pairs env t rest) \<or> bindReturn b' = TCL_ERROR"
        "list_all (\<lambda>(k, v). fst (convertValue env (lookup_type env t k) v) = TCL_OK)
             (recognized_pairs env t rest)
           \<longrightarrow> j = length (recognized_pairs env t rest) \<and> bindResult b' = bindResult ?b1
             \<and> (bindReturn ?b1 = TCL_OK \<longrightarrow> bindReturn b' = TCL_OK)"
        by blast
      show ?thesis
        unfolding rec step using IH
        by (intro exI[of _ b'] exI[of _ "Suc j"]) auto
    qed
  qed
qed simp_all

lemma map_pairs_skip:
  "cassValueType ti \<noteq> CASS_VALUE_TYPE_UNKNOWN \<Longrightarrow>
   upsert_map_pairs env (k # v # rest) (ti # tis) coll = upsert_map_pairs env rest tis coll"
  by simp

lemma map_pairs_append:
  assumes "cassValueType ti = CASS_VALUE_TYPE_UNKNOWN"
  shows "upsert_map_pairs env (k # v # rest) (ti # tis) coll =
     (if appendError env CASS_VALUE_TYPE_TEXT k \<noteq> CASS_OK then
        (coll, Some (TCL_ERROR, errorMessage env (appendError env CASS_VALUE_TYPE_TEXT k)))
      else if appendError env CASS_VALUE_TYPE_TEXT v \<noteq> CASS_OK then
        (coll\<lparr>items := items coll @ [(CASS_VALUE_TYPE_TEXT, k)]\<rparr>,
         Some (TCL_ERROR, errorMessage env (appendError env CASS_VALUE_TYPE_TEXT v)))
      else upsert_map_pairs env rest tis
             (coll\<lparr>items := items coll @ [(CASS_VALUE_TYPE_TEXT, k), (CASS_VALUE_TYPE_TEXT, v)]\<rparr>))"
  using assms
  by (simp add: Let_def casstcl_append_tcl_obj_to_collection_def casstcl_cass_error_to_tcl_def)

text \<open>
  The loop that fills the map, under the lookup contract: it appends the names and values
  of the unknown pairs as text, in order, and stops early only on a failed append.
\<close>

lemma map_pairs_general:
  assumes "lookups_consistent env t kvs"
  shows "\<exists>its failed.
       upsert_map_pairs env kvs (map (lookup_type env t) (pair_names kvs)) coll
         = (coll\<lparr>items := items coll @ its\<rparr>, failed)
     \<and> (case failed of None \<Rightarrow> its = text_items (unrecognized_pairs env t kvs)
         | Some (rc, msg) \<Rightarrow> rc = TCL_ERROR)
     \<and> (list_all (\<lambda>(k, v). appendError env CASS_VALUE_TYPE_TEXT k = CASS_OK
                          \<and> appendError env CASS_VALUE_TYPE_TEXT v = CASS_OK)
            (unrecognized_pairs env t kvs) \<longrightarrow> failed = None)"
  using assms
proof (induction kvs arbitrary: coll rule: pair_names.induct)
  case (1 k v rest)
  let ?ti = "lookup_type env t k"
  have cons: "lookups_consistent env t rest"
    and kt: "(lookup_code env t k = TCL_CONTINUE) = (cassValueType ?ti = CASS_VALUE_TYPE_UNKNOWN)"
    using 1(2) by (simp_all add: lookups_consistent_step)
  show ?case
  proof (cases "lookup_code env t k = TCL_CONTINUE")
    case False
    then have unrec: "unrecognized_pairs env t (k # v # rest) = unrecognized_pairs env t rest"
      by simp
    have step: "upsert_map_pairs env (k # v # rest)
                  (map (lookup_type env t) (pair_names (k # v # rest))) coll
             = upsert_map_pairs env rest (map (lookup_type env t) (pair_names rest)) coll"
      using False kt by simp
    show ?thesis unfolding unrec step by (rule 1(1)[OF cons])
  next
    case True
    then have unrec:
      "unrecognized_pairs env t (k # v # rest) = (k, v) # unrecognized_pairs env t rest"
      by simp
    have unk: "cassValueType ?ti = CASS_VALUE_TYPE_UNKNOWN" using True kt by simp
    note app = map_pairs_append[OF unk, of env k v rest "map (lookup_type env t) (pair_names rest)" coll]
    consider (kfail) "appendError env CASS_VALUE_TYPE_TEXT k \<noteq> CASS_OK"
      | (vfail) "appendError env CASS_VALUE_TYPE_TEXT k = CASS_OK"
                "appendError env CASS_VALUE_TYPE_TEXT v \<noteq> CASS_OK"
      | (ok) "appendError env CASS_VALUE_TYPE_TEXT k = CASS_OK"
             "appendError env CASS_VALUE_TYPE_TEXT v = CASS_OK"
      by blast
    then show ?thesis
    proof cases
      case kfail
      then show ?thesis unfolding unrec using app
        by (intro exI[of _ "[]"] exI[of _ "Some (TCL_ERROR, errorMessage env (appendError env CASS_VALUE_TYPE_TEXT k))"]) simp
    next
      case vfail
      then show ?thesis unfolding unrec using app
        by (intro exI[of _ "[(CASS_VALUE_TYPE_TEXT, k)]"] exI[of _ "Some (TCL_ERROR, errorMessage env (appendError env CASS_VALUE_TYPE_TEXT v))"]) simp
    next
      case ok
      let ?c2 = "coll\<lparr>items := items coll @ [(CASS_VALUE_TYPE_TEXT, k), (CASS_VALUE_TYPE_TEXT, v)]\<rparr>"
      from 1(1)[OF cons, of ?c2] obtain its failed where IH:
        "upsert_map_pairs env rest (map (lookup_type env t) (pair_names rest)) ?c2
           = (?c2\<lparr>items := items ?c2 @ its\<rparr>, failed)"
        "case failed of None \<Rightarrow> its = text_items (unrecognized_pairs env t rest)
           | Some (rc, msg) \<Rightarrow> rc = TCL_ERROR"
        "list_all (\<lambda>(k, v). appendError env CASS_VALUE_TYPE_TEXT k = CASS_OK
                          \<and> appendError env CASS_VALUE_TYPE_TEXT v = CASS_OK)
            (unrecognized_pairs env t rest) \<longrightarrow> failed = None"
        by blast
      show ?thesis unfolding unrec using ok app IH
        by (intro exI[of _ "[(CASS_VALUE_TYPE_TEXT, k), (CASS_VALUE_TYPE_TEXT, v)] @ its"] exI[of _ failed])
           (auto split: option.splits)
    qed
  qed
qed simp_all

text \<open>The block that binds the map, after a binding loop that left \<open>bindField < n\<close>.\<close>

lemma bind_map_general:
  assumes "lookups_consistent env t kvs"
      and "0 < nUnknown \<longrightarrow> bindField b < n"
      and "nUnknown = (if d then 0 else length (unrecognized_pairs env t kvs))"
  shows "\<exists>b2 tail. upsert_bind_map env n nUnknown kvs (map (lookup_type env t) (pair_names kvs)) b
                  = Inr b2
     \<and> statement b2 = (statement b)\<lparr>binds := binds (statement b) @ tail\<rparr>
     \<and> (if map_triggered env t kvs d
         then \<exists>coll. tail = [(bindField b, BoundCollection coll)]
                \<and> (bindReturn b2 = TCL_OK \<longrightarrow> coll = unknown_map env t kvs)
         else tail = [])
     \<and> (bindReturn b2 = TCL_OK \<longrightarrow> bindReturn b = TCL_OK \<and> bindResult b2 = bindResult b)
     \<and> ((d \<or> (list_all (\<lambda>(k, v). appendError env CASS_VALUE_TYPE_TEXT k = CASS_OK
                          \<and> appendError env CASS_VALUE_TYPE_TEXT v = CASS_OK)
                  (unrecognized_pairs env t kvs)
               \<and> (unrecognized_pairs env t kvs = [] \<or> bindCollectionError env (bindField b) = CASS_OK)))
          \<longrightarrow> bindReturn b2 = bindReturn b)"
proof (cases "0 < nUnknown")
  case False
  then have "\<not> map_triggered env t kvs d"
    using assms(3) by (auto simp: map_triggered_def split: if_splits)
  then show ?thesis using False
    by (intro exI[of _ b] exI[of _ "[]"]) (simp add: upsert_bind_map_def)
next
  case True
  then have trig: "map_triggered env t kvs d" and nd: "\<not> d"
    and nU: "nUnknown = length (unrecognized_pairs env t kvs)"
    using assms(3) by (auto simp: map_triggered_def split: if_splits)
  have lt: "bindField b < n" using True assms(2) by simp
  let ?c0 = "cass_collection_new CASS_COLLECTION_TYPE_MAP nUnknown"
  from map_pairs_general[OF assms(1), of ?c0] obtain its failed where mp:
    "upsert_map_pairs env kvs (map (lookup_type env t) (pair_names kvs)) ?c0
       = (?c0\<lparr>items := items ?c0 @ its\<rparr>, failed)"
    "case failed of None \<Rightarrow> its = text_items (unrecognized_pairs env t kvs)
       | Some (rc, msg) \<Rightarrow> rc = TCL_ERROR"
    "list_all (\<lambda>(k, v). appendError env CASS_VALUE_TYPE_TEXT k = CASS_OK
                          \<and> appendError env CASS_VALUE_TYPE_TEXT v = CASS_OK)
            (unrecognized_pairs env t kvs) \<longrightarrow> failed = None"
    by blast
  let ?coll = "?c0\<lparr>items := items ?c0 @ its\<rparr>"
  let ?b1 = "case failed of None \<Rightarrow> b | Some (rc, msg) \<Rightarrow> b\<lparr>bindReturn := rc, bindResult := msg\<rparr>"
  have f1: "bindField ?b1 = bindField b" "statement ?b1 = statement b"
    by (simp_all split: option.splits)
  let ?st = "(statement b)\<lparr>binds := binds (statement b) @ [(bindField b, BoundCollection ?coll)]\<rparr>"
  let ?b2 = "if bindCollectionError env (bindField b) \<noteq> CASS_OK
             then ?b1\<lparr>statement := ?st, bindReturn := TCL_ERROR,
                      bindResult := errorMessage env (bindCollectionError env (bindField b))\<rparr>
             else ?b1\<lparr>statement := ?st\<rparr>"
  have run: "upsert_bind_map env n nUnknown kvs (map (lookup_type env t) (pair_names kvs)) b
               = Inr ?b2"
    using True lt mp(1) f1
    by (simp add: upsert_bind_map_def Let_def cass_statement_bind_collection_def
          casstcl_cass_error_to_tcl_def)
  have ok_coll: "bindReturn ?b2 = TCL_OK \<Longrightarrow> ?coll = unknown_map env t kvs"
    using mp(2) nU
    by (auto simp: unknown_map_def cass_collection_new_def split: option.splits if_splits)
  have ok_ret: "bindReturn ?b2 = TCL_OK \<Longrightarrow> bindReturn b = TCL_OK \<and> bindResult ?b2 = bindResult b"
    using mp(2) by (auto split: option.splits if_splits)
  have tot: "list_all (\<lambda>(k, v). appendError env CASS_VALUE_TYPE_TEXT k = CASS_OK
                          \<and> appendError env CASS_VALUE_TYPE_TEXT v = CASS_OK)
                  (unrecognized_pairs env t kvs)
               \<and> (unrecognized_pairs env t kvs = [] \<or> bindCollectionError env (bindField b) = CASS_OK)
             \<Longrightarrow> bindReturn ?b2 = bindReturn b"
    using mp(3) trig by (auto simp: map_triggered_def split: option.splits)
  show ?thesis
    unfolding run using trig nd ok_coll ok_ret tot
    by (intro exI[of _ ?b2] exI[of _ "[(bindField b, BoundCollection ?coll)]"])
       (auto split: option.splits)
qed

section \<open>The statement the upsert builder makes\<close>

lemma comma_join_snoc:
  "comma_join (xs @ [y]) = comma_join xs @ (if xs = [] then [] else '','') @ y"
  by (induction xs rule: comma_join.induct) simp_all

lemma count_placeholders:
  "count_list (upsert_placeholders n) (CHR ''?'') = n"
  by (induction n) simp_all

lemma valid_completes:
  "upsert_input_valid env t kvs c m d \<Longrightarrow> first_loop_completes env t m d kvs"
  by (auto simp: upsert_input_valid_def first_loop_completes_def list_all_iff)

text \<open>
  The builder after a first loop that ran to its end with \<open>TCL_OK\<close>: the statement is
  created for the expected text and field count, and the binding pass starts.
\<close>

lemma make_upsert_after_columns:
  assumes "even (length kvs)" "first_loop_completes env t m d kvs"
      and "tclReturn (upsert_columns env t m d kvs
             \<lparr>ds = ''INSERT INTO '' @ t @ '' ('', nFields = 0, didOne = False,
              nUnknownToMap = 0, typeInfo = [], tclReturn = TCL_OK, interpResult = [],
              typeLookups = []\<rparr>) = TCL_OK"
  shows "casstcl_make_upsert_statement env t (TclList kvs) c m d ine =
     (let st0 = cass_statement_new (upsert_query t (column_list env t kvs m d) ine)
                  (field_count env t kvs d)
      in if consistencyCode env c \<noteq> TCL_OK then
           Inr \<lparr>returnCode = consistencyCode env c, resultText = [], statementPtr = None,
                constructed = Some st0, lookedUp = pair_names kvs\<rparr>
         else
           (case upsert_bind_fields env t (field_count env t kvs d) kvs
                   (map (lookup_type env t) (pair_names kvs))
                   \<lparr>statement = st0\<lparr>consistency := c\<rparr>, bindField = 0, bindReturn = TCL_OK,
                    bindResult = []\<rparr> of
              Inl e \<Rightarrow> Inl e
            | Inr b1 \<Rightarrow>
                (case upsert_bind_map env (field_count env t kvs d)
                        (if d then 0 else length (unrecognized_pairs env t kvs)) kvs
                        (map (lookup_type env t) (pair_names kvs)) b1 of
                   Inl e \<Rightarrow> Inl e
                 | Inr b2 \<Rightarrow>
                     Inr \<lparr>returnCode = bindReturn b2, resultText = bindResult b2,
                          statementPtr = (if bindReturn b2 = TCL_OK then Some (statement b2)
                                          else None),
                          constructed = Some (statement b2),
                          lookedUp = pair_names kvs\<rparr>)))"
proof -
  define s1 where "s1 = upsert_columns env t m d kvs
             \<lparr>ds = ''INSERT INTO '' @ t @ '' ('', nFields = 0, didOne = False,
              nUnknownToMap = 0, typeInfo = [], tclReturn = TCL_OK, interpResult = [],
              typeLookups = []\<rparr>"
  note f = upsert_columns_complete[OF assms(2), of "\<lparr>ds = ''INSERT INTO '' @ t @ '' ('', nFields = 0, didOne = False,
              nUnknownToMap = 0, typeInfo = [], tclReturn = TCL_OK, interpResult = [],
              typeLookups = []\<rparr>", folded s1_def]
     upsert_columns_ds[OF assms(2), of "\<lparr>ds = ''INSERT INTO '' @ t @ '' ('', nFields = 0, didOne = False,
              nUnknownToMap = 0, typeInfo = [], tclReturn = TCL_OK, interpResult = [],
              typeLookups = []\<rparr>", folded s1_def]
  have fields: "typeInfo s1 = map (lookup_type env t) (pair_names kvs)"
    "typeLookups s1 = pair_names kvs" "interpResult s1 = []"
    "nFields s1 = length (recognized_pairs env t kvs)"
    "nUnknownToMap s1 = (if d then 0 else length (unrecognized_pairs env t kvs))"
    "didOne s1 = (recognized_pairs env t kvs \<noteq> [])"
    "ds s1 = ''INSERT INTO '' @ t @ '' ('' @ comma_join (map fst (recognized_pairs env t kvs))"
    "tclReturn s1 = TCL_OK"
    using f assms(3)[folded s1_def] by simp_all
  have unf: "casstcl_make_upsert_statement env t (TclList kvs) c m d ine =
     (let s2 = (if nUnknownToMap s1 > 0 then
                  s1\<lparr>ds := ds s1 @ (if didOne s1 then '','' else [])
                          @ (case m of None \<Rightarrow> [] | Some m \<Rightarrow> m),
                     nFields := nFields s1 + 1\<rparr>
                else s1);
          s3 = s2\<lparr>ds := ds s2 @ '') values ('' @ upsert_placeholders (nFields s2)
                     @ (if ine then '') IF NOT EXISTS'' else '')'')\<rparr>
      in if tclReturn s3 = TCL_OK then
           (let (rc, st) =
                  casstcl_setStatementConsistency env
                    (cass_statement_new (ds s3) (nFields s3)) c;
                b0 = \<lparr>statement = st, bindField = 0, bindReturn = rc,
                      bindResult = interpResult s3\<rparr>
            in if rc \<noteq> TCL_OK then
                 Inr \<lparr>returnCode = rc, resultText = interpResult s3,
                      statementPtr = None, constructed = Some st,
                      lookedUp = typeLookups s3\<rparr>
               else
                 (case upsert_bind_fields env t (nFields s3) kvs (typeInfo s3) b0 of
                    Inl e \<Rightarrow> Inl e
                  | Inr b1 \<Rightarrow>
                      (case upsert_bind_map env (nFields s3) (nUnknownToMap s3)
                              kvs (typeInfo s3) b1 of
                         Inl e \<Rightarrow> Inl e
                       | Inr b2 \<Rightarrow>
                           Inr \<lparr>returnCode = bindReturn b2,
                                resultText = bindResult b2,
                                statementPtr =
                                  (if bindReturn b2 = TCL_OK then Some (statement b2)
                                   else None),
                                constructed = Some (statement b2),
                                lookedUp = typeLookups s3\<rparr>)))
         else
           Inr \<lparr>returnCode = tclReturn s3, resultText = interpResult s3,
                statementPtr = None, constructed = None,
                lookedUp = typeLookups s3\<rparr>)"
    using assms(1) unfolding casstcl_make_upsert_statement_def s1_def Let_def by simp
  show ?thesis
  proof (cases "map_triggered env t kvs d")
    case True
    then have nz: "0 < nUnknownToMap s1" "\<not> d" "unrecognized_pairs env t kvs \<noteq> []"
      using fields(5) by (auto simp: map_triggered_def)
    show ?thesis
      unfolding unf using True nz fields
      by (simp add: Let_def upsert_query_def column_list_def field_count_def comma_join_snoc
            casstcl_setStatementConsistency_def cass_statement_new_def
            cong: sum.case_cong)
  next
    case False
    then have nz: "\<not> 0 < nUnknownToMap s1"
      using fields(5) by (auto simp: map_triggered_def)
    show ?thesis
      unfolding unf using False nz fields
      by (simp add: Let_def upsert_query_def column_list_def field_count_def
            casstcl_setStatementConsistency_def cass_statement_new_def
            cong: sum.case_cong)
  qed
qed

lemma make_upsert_columns_failed:
  assumes "tclReturn (upsert_columns env t m d kvs
             \<lparr>ds = ''INSERT INTO '' @ t @ '' ('', nFields = 0, didOne = False,
              nUnknownToMap = 0, typeInfo = [], tclReturn = TCL_OK, interpResult = [],
              typeLookups = []\<rparr>) \<noteq> TCL_OK \<or> odd (length kvs)"
  shows "\<exists>out. casstcl_make_upsert_statement env t (TclList kvs) c m d ine = Inr out
       \<and> constructed out = None \<and> statementPtr out = None"
  using assms
  by (auto simp: casstcl_make_upsert_statement_def Let_def)

lemma valid_columns_ok:
  assumes "upsert_input_valid env t kvs c m d"
  shows "tclReturn (upsert_columns env t m d kvs
             \<lparr>ds = ''INSERT INTO '' @ t @ '' ('', nFields = 0, didOne = False,
              nUnknownToMap = 0, typeInfo = [], tclReturn = TCL_OK, interpResult = [],
              typeLookups = []\<rparr>) = TCL_OK"
  using assms by (intro upsert_columns_ok) (simp_all add: upsert_input_valid_def)

text \<open>
  What the builder returns under the lookup contract. It never fails an assertion. The
  statement it creates has the expected text and field count; the binds issued on it are
  the values of the first \<open>j\<close> recognized pairs at the positions \<open>0\<close> to \<open>j - 1\<close>, then
  possibly the map at position \<open>j\<close>. When the statement is handed to the caller, every
  recognized pair is bound and, if the map was triggered, the map of all unknown pairs
  follows. A valid input makes the builder hand the statement to the caller.
\<close>

lemma upsert_general:
  assumes "lookups_consistent env t kvs"
  shows "\<exists>out. casstcl_make_upsert_statement env t (TclList kvs) c m d ine = Inr out
     \<and> (case constructed out of
          None \<Rightarrow> statementPtr out = None
        | Some st \<Rightarrow>
            query st = upsert_query t (column_list env t kvs m d) ine
          \<and> parameterCount st = field_count env t kvs d
          \<and> (\<exists>j tail. j \<le> length (recognized_pairs env t kvs)
                \<and> binds st = value_binds env t 0 (take j (recognized_pairs env t kvs)) @ tail
                \<and> (if map_triggered env t kvs d
                    then tail = [] \<or> (\<exists>coll. tail = [(j, BoundCollection coll)])
                    else tail = [])
                \<and> (case statementPtr out of
                      None \<Rightarrow> True
                    | Some st' \<Rightarrow>
                        st' = st \<and> returnCode out = TCL_OK
                      \<and> j = length (recognized_pairs env t kvs)
                      \<and> tail = (if map_triggered env t kvs d
                                then [(j, BoundCollection (unknown_map env t kvs))]
                                else []))))
     \<and> (upsert_input_valid env t kvs c m d \<longrightarrow> statementPtr out \<noteq> None)"
proof -
  let ?s1 = "upsert_columns env t m d kvs
             \<lparr>ds = ''INSERT INTO '' @ t @ '' ('', nFields = 0, didOne = False,
              nUnknownToMap = 0, typeInfo = [], tclReturn = TCL_OK, interpResult = [],
              typeLookups = []\<rparr>"
  let ?rec = "recognized_pairs env t kvs"
  let ?N = "field_count env t kvs d"
  let ?tis = "map (lookup_type env t) (pair_names kvs)"
  show ?thesis
  proof (cases "tclReturn ?s1 \<noteq> TCL_OK \<or> odd (length kvs)")
    case True
    from make_upsert_columns_failed[OF True, of c ine] obtain out where
      "casstcl_make_upsert_statement env t (TclList kvs) c m d ine = Inr out"
      "constructed out = None" "statementPtr out = None"
      by blast
    moreover have "\<not> upsert_input_valid env t kvs c m d"
      using True valid_columns_ok[of env t kvs c m d]
      by (auto simp: upsert_input_valid_def)
    ultimately show ?thesis by simp
  next
    case False
    then have ev: "even (length kvs)" and ok1: "tclReturn ?s1 = TCL_OK" by simp_all
    have compl: "first_loop_completes env t m d kvs"
      using upsert_columns_incomplete[of env t m d kvs] ok1 by fastforce
    note unf = make_upsert_after_columns[OF ev compl ok1, of c ine]
    let ?st0 = "cass_statement_new (upsert_query t (column_list env t kvs m d) ine) ?N"
    show ?thesis
    proof (cases "consistencyCode env c \<noteq> TCL_OK")
      case True
      have nv: "\<not> upsert_input_valid env t kvs c m d"
        using True by (simp add: upsert_input_valid_def)
      show ?thesis
        unfolding unf using True nv
        by (simp add: Let_def cass_statement_new_def)
           (intro exI[of _ 0], simp)
    next
      case cok: False
      let ?b0 = "\<lparr>statement = ?st0\<lparr>consistency := c\<rparr>, bindField = 0,
                  bindReturn = TCL_OK, bindResult = []\<rparr>"
      have le0: "bindField ?b0 + length ?rec \<le> ?N" by (simp add: field_count_def)
      from bind_fields_general[OF assms le0] obtain b1 j where L2:
        "upsert_bind_fields env t ?N kvs ?tis ?b0 = Inr b1"
        "j \<le> length ?rec"
        "bindField b1 = bindField ?b0 + j"
        "statement b1 = (statement ?b0)\<lparr>binds := binds (statement ?b0)
            @ value_binds env t (bindField ?b0) (take j ?rec)\<rparr>"
        "j = length ?rec \<or> bindReturn b1 = TCL_ERROR"
        "list_all (\<lambda>(k, v). fst (convertValue env (lookup_type env t k) v) = TCL_OK) ?rec
           \<longrightarrow> j = length ?rec \<and> bindResult b1 = bindResult ?b0
             \<and> (bindReturn ?b0 = TCL_OK \<longrightarrow> bindReturn b1 = TCL_OK)"
        by blast
      have bf1: "bindField b1 = j" using L2(3) by simp
      let ?nU = "if d then 0 else length (unrecognized_pairs env t kvs)"
      have lt: "0 < ?nU \<longrightarrow> bindField b1 < ?N"
        using bf1 L2(2) by (auto simp: field_count_def map_triggered_def)
      from bind_map_general[OF assms lt refl] obtain b2 tail where L3:
        "upsert_bind_map env ?N ?nU kvs ?tis b1 = Inr b2"
        "statement b2 = (statement b1)\<lparr>binds := binds (statement b1) @ tail\<rparr>"
        "if map_triggered env t kvs d
         then \<exists>coll. tail = [(bindField b1, BoundCollection coll)]
                \<and> (bindReturn b2 = TCL_OK \<longrightarrow> coll = unknown_map env t kvs)
         else tail = []"
        "bindReturn b2 = TCL_OK \<longrightarrow> bindReturn b1 = TCL_OK \<and> bindResult b2 = bindResult b1"
        "(d \<or> (list_all (\<lambda>(k, v). appendError env CASS_VALUE_TYPE_TEXT k = CASS_OK
                          \<and> appendError env CASS_VALUE_TYPE_TEXT v = CASS_OK)
                  (unrecognized_pairs env t kvs)
               \<and> (unrecognized_pairs env t kvs = []
                   \<or> bindCollectionError env (bindField b1) = CASS_OK)))
          \<longrightarrow> bindReturn b2 = bindReturn b1"
        by blast
      let ?out = "\<lparr>returnCode = bindReturn b2, resultText = bindResult b2,
                   statementPtr = (if bindReturn b2 = TCL_OK then Some (statement b2) else None),
                   constructed = Some (statement b2), lookedUp = pair_names kvs\<rparr>"
      have run: "casstcl_make_upsert_statement env t (TclList kvs) c m d ine = Inr ?out"
        unfolding unf using cok L2(1) L3(1) by (simp add: Let_def)
      have st2: "query (statement b2) = upsert_query t (column_list env t kvs m d) ine"
        "parameterCount (statement b2) = ?N"
        "binds (statement b2) = value_binds env t 0 (take j ?rec) @ tail"
        using L2(4) L3(2) by (simp_all add: cass_statement_new_def)
      have tail1: "if map_triggered env t kvs d
                   then tail = [] \<or> (\<exists>coll. tail = [(j, BoundCollection coll)])
                   else tail = []"
        using L3(3) bf1 by (auto split: if_splits)
      have succ: "bindReturn b2 = TCL_OK \<Longrightarrow>
                  j = length ?rec
                  \<and> tail = (if map_triggered env t kvs d
                            then [(j, BoundCollection (unknown_map env t kvs))] else [])"
        using L2(5) L3(3,4) bf1 by (auto split: if_splits)
      have tot: "upsert_input_valid env t kvs c m d \<Longrightarrow> bindReturn b2 = TCL_OK"
      proof -
        assume v: "upsert_input_valid env t kvs c m d"
        then have c1: "j = length ?rec" "bindReturn b1 = TCL_OK"
          using L2(6) by (simp_all add: upsert_input_valid_def)
        then show ?thesis using v L3(5) bf1 by (auto simp: upsert_input_valid_def)
      qed
      show ?thesis
        unfolding run using st2 tail1 succ tot L2(2)
        by (intro exI[of _ ?out]) (auto intro!: exI[of _ j] exI[of _ tail])
    qed
  qed
qed

lemma value_binds_positions:
  "map fst (value_binds env t i ps) = [i..<i + length ps]"
  by (induction env t i ps rule: value_binds.induct) (simp_all add: upt_rec)

lemma value_binds_length [simp]:
  "length (value_binds env t i ps) = length ps"
  by (induction env t i ps rule: value_binds.induct) simp_all

text \<open>The statement that a valid input makes the builder hand to the caller.\<close>

lemma upsert_valid_statement:
  assumes "upsert_input_valid env t kvs c m d"
  shows "\<exists>out st.
       casstcl_make_upsert_statement env t (TclList kvs) c m d ine = Inr out
     \<and> returnCode out = TCL_OK
     \<and> statementPtr out = Some st
     \<and> query st = upsert_query t (column_list env t kvs m d) ine
     \<and> parameterCount st = field_count env t kvs d
     \<and> binds st = value_binds env t 0 (recognized_pairs env t kvs)
                    @ (if map_triggered env t kvs d
                       then [(length (recognized_pairs env t kvs),
                              BoundCollection (unknown_map env t kvs))]
                       else [])"
proof -
  have cons: "lookups_consistent env t kvs"
    using assms by (simp add: upsert_input_valid_def)
  from upsert_general[OF cons, of c m d ine] assms
  obtain out where out:
    "casstcl_make_upsert_statement env t (TclList kvs) c m d ine = Inr out"
    "case constructed out of
          None \<Rightarrow> statementPtr out = None
        | Some st \<Rightarrow>
            query st = upsert_query t (column_list env t kvs m d) ine
          \<and> parameterCount st = field_count env t kvs d
          \<and> (\<exists>j tail. j \<le> length (recognized_pairs env t kvs)
                \<and> binds st = value_binds env t 0 (take j (recognized_pairs env t kvs)) @ tail
                \<and> (if map_triggered env t kvs d
                    then tail = [] \<or> (\<exists>coll. tail = [(j, BoundCollection coll)])
                    else tail = [])
                \<and> (case statementPtr out of
                      None \<Rightarrow> True
                    | Some st' \<Rightarrow>
                        st' = st \<and> returnCode out = TCL_OK
                      \<and> j = length (recognized_pairs env t kvs)
                      \<and> tail = (if map_triggered env t kvs d
                                then [(j, BoundCollection (unknown_map env t kvs))]
                                else [])))"
    "statementPtr out \<noteq> None"
    by blast
  from out(3) obtain st where st: "statementPtr out = Some st" by blast
  from out(2) st have
    "returnCode out = TCL_OK
     \<and> query st = upsert_query t (column_list env t kvs m d) ine
     \<and> parameterCount st = field_count env t kvs d
     \<and> binds st = value_binds env t 0 (recognized_pairs env t kvs)
                 @ (if map_triggered env t kvs d
                    then [(length (recognized_pairs env t kvs),
                           BoundCollection (unknown_map env t kvs))]
                    else [])"
    by (auto split: option.splits)
  then show ?thesis using out(1) st by blast
qed

lemmas upsert_vocabulary =
  upsert_input_valid_def lookups_consistent_def map_triggered_def field_count_def
  column_list_def upsert_query_def unknown_map_def

text \<open>
  C3: for a valid input the builder hands back a statement with as many placeholders as
  there are recognized columns, plus one when the map of unknown columns was triggered;
  the statement is created with that parameter count and each of these positions is
  bound once, in order. When every column of the list resolves, this is the number of
  pairs of the list.
\<close>

theorem upsert_placeholder_count:
  assumes "upsert_input_valid env tableName listObjv consistencyPtr mapUnknown dropUnknown"
  shows "\<exists>out st.
       casstcl_make_upsert_statement env tableName (TclList listObjv) consistencyPtr
         mapUnknown dropUnknown ifNotExists = Inr out
     \<and> returnCode out = TCL_OK
     \<and> statementPtr out = Some st
     \<and> query st =
         ''INSERT INTO '' @ tableName @ '' (''
           @ comma_join (column_list env tableName listObjv mapUnknown dropUnknown)
           @ '') values ('' @ upsert_placeholders (field_count env tableName listObjv dropUnknown)
           @ (if ifNotExists then '') IF NOT EXISTS'' else '')'')
     \<and> count_list (upsert_placeholders (field_count env tableName listObjv dropUnknown))
           (CHR ''?'')
         = length (recognized_pairs env tableName listObjv)
             + (if map_triggered env tableName listObjv dropUnknown then 1 else 0)
     \<and> parameterCount st
         = length (recognized_pairs env tableName listObjv)
             + (if map_triggered env tableName listObjv dropUnknown then 1 else 0)
     \<and> map fst (binds st) = [0..<parameterCount st]"
proof -
  from upsert_valid_statement[OF assms, of ifNotExists] obtain out st where s:
    "casstcl_make_upsert_statement env tableName (TclList listObjv) consistencyPtr
         mapUnknown dropUnknown ifNotExists = Inr out"
    "returnCode out = TCL_OK" "statementPtr out = Some st"
    "query st = upsert_query tableName
                  (column_list env tableName listObjv mapUnknown dropUnknown) ifNotExists"
    "parameterCount st = field_count env tableName listObjv dropUnknown"
    "binds st = value_binds env tableName 0 (recognized_pairs env tableName listObjv)
                 @ (if map_triggered env tableName listObjv dropUnknown
                    then [(length (recognized_pairs env tableName listObjv),
                           BoundCollection (unknown_map env tableName listObjv))]
                    else [])"
    by blast
  have len: "length (column_list env tableName listObjv mapUnknown dropUnknown)
               = field_count env tableName listObjv dropUnknown"
    by (simp add: column_list_def field_count_def)
  show ?thesis
    using s
    by (intro exI[of _ out] exI[of _ st])
       (simp add: upsert_query_def len count_placeholders field_count_def
          value_binds_positions)
qed


text \<open>
  C4: for a valid input with map-unknown set, drop-unknown unset and at least one unknown
  column, the builder hands back a statement whose column list is the recognized columns
  followed by the map column, once and last, and whose last bind, at the position after
  the recognized columns, is one map collection that holds the names and values of all
  unknown pairs, in list order, each appended as text.
\<close>

theorem upsert_map_column:
  assumes "upsert_input_valid env tableName listObjv consistencyPtr (Some m) False"
      and "unrecognized_pairs env tableName listObjv \<noteq> []"
  shows "\<exists>out st.
       casstcl_make_upsert_statement env tableName (TclList listObjv) consistencyPtr
         (Some m) False ifNotExists = Inr out
     \<and> statementPtr out = Some st
     \<and> query st =
         upsert_query tableName (map fst (recognized_pairs env tableName listObjv) @ [m])
           ifNotExists
     \<and> binds st =
         value_binds env tableName 0 (recognized_pairs env tableName listObjv)
           @ [(length (recognized_pairs env tableName listObjv),
               BoundCollection
                 \<lparr>collectionType = CASS_COLLECTION_TYPE_MAP,
                  itemCount = length (unrecognized_pairs env tableName listObjv),
                  items = text_items (unrecognized_pairs env tableName listObjv)\<rparr>)]"
proof -
  from upsert_valid_statement[OF assms(1), of ifNotExists] obtain out st where s:
    "casstcl_make_upsert_statement env tableName (TclList listObjv) consistencyPtr
         (Some m) False ifNotExists = Inr out"
    "statementPtr out = Some st"
    "query st = upsert_query tableName
                  (column_list env tableName listObjv (Some m) False) ifNotExists"
    "binds st = value_binds env tableName 0 (recognized_pairs env tableName listObjv)
                 @ (if map_triggered env tableName listObjv False
                    then [(length (recognized_pairs env tableName listObjv),
                           BoundCollection (unknown_map env tableName listObjv))]
                    else [])"
    by blast
  show ?thesis
    using s assms(2)
    by (intro exI[of _ out] exI[of _ st])
       (simp add: column_list_def map_triggered_def unknown_map_def)
qed

theorem upsert_placeholder_count_witness:
  "upsert_input_valid users_env ''ks.users'' users_row None (Some ''extra'') False
   \<and> recognized_pairs users_env ''ks.users'' users_row = [(''id'', ''u1''), (''name'', ''Bob'')]
   \<and> map_triggered users_env ''ks.users'' users_row False
   \<and> (\<exists>out st.
         casstcl_make_upsert_statement users_env ''ks.users'' (TclList users_row) None
           (Some ''extra'') False False = Inr out
       \<and> returnCode out = TCL_OK
       \<and> statementPtr out = Some st
       \<and> query st = ''INSERT INTO ks.users (id,name,extra) values (?,?,?)''
       \<and> count_list ''?,?,?'' (CHR ''?'') = 3
       \<and> parameterCount st = 3
       \<and> map fst (binds st) = [0, 1, 2])"
proof -
  have h: "upsert_input_valid users_env ''ks.users'' users_row None (Some ''extra'') False"
    by (simp add: upsert_vocabulary users_defs)
  have r: "recognized_pairs users_env ''ks.users'' users_row = [(''id'', ''u1''), (''name'', ''Bob'')]"
    "map_triggered users_env ''ks.users'' users_row False"
    by (simp_all add: upsert_vocabulary users_defs)
  have fc: "field_count users_env ''ks.users'' users_row False = 3"
    by (simp add: field_count_def r)
  have cl: "column_list users_env ''ks.users'' users_row (Some ''extra'') False
              = [''id'', ''name'', ''extra'']"
    by (simp add: column_list_def r)
  have p: "upsert_placeholders 3 = ''?,?,?''" by (simp add: numeral_3_eq_3)
  have u: "[0..<3] = [0, 1, 2::nat]" by (simp add: upt_rec)
  from upsert_placeholder_count[OF h, of False] obtain out st where s:
    "casstcl_make_upsert_statement users_env ''ks.users'' (TclList users_row) None
           (Some ''extra'') False False = Inr out"
    "returnCode out = TCL_OK" "statementPtr out = Some st"
    "query st = ''INSERT INTO '' @ ''ks.users'' @ '' (''
           @ comma_join (column_list users_env ''ks.users'' users_row (Some ''extra'') False)
           @ '') values ('' @ upsert_placeholders (field_count users_env ''ks.users'' users_row False)
           @ (if False then '') IF NOT EXISTS'' else '')'')"
    "parameterCount st
         = length (recognized_pairs users_env ''ks.users'' users_row)
             + (if map_triggered users_env ''ks.users'' users_row False then 1 else 0)"
    "map fst (binds st) = [0..<parameterCount st]"
    by blast
  have q: "query st = ''INSERT INTO ks.users (id,name,extra) values (?,?,?)''"
    unfolding s(4) fc cl p by simp
  have n: "parameterCount st = 3"
    unfolding s(5) using r by simp
  have b: "map fst (binds st) = [0, 1, 2]"
    unfolding s(6) n u by simp
  have c: "count_list ''?,?,?'' (CHR ''?'') = 3" by simp
  show ?thesis
    by (intro conjI exI[of _ out] exI[of _ st]) (fact h r s(1,2,3) q n b c)+
qed

theorem upsert_map_column_witness:
  "upsert_input_valid users_env ''ks.users'' users_row None (Some ''extra'') False
   \<and> unrecognized_pairs users_env ''ks.users'' users_row \<noteq> []
   \<and> (\<exists>out st.
         casstcl_make_upsert_statement users_env ''ks.users'' (TclList users_row) None
           (Some ''extra'') False False = Inr out
       \<and> statementPtr out = Some st
       \<and> query st = ''INSERT INTO ks.users (id,name,extra) values (?,?,?)''
       \<and> binds st =
           [(0, BoundValue uuid_type ''u1''), (1, BoundValue text_type ''Bob''),
            (2, BoundCollection
                 \<lparr>collectionType = CASS_COLLECTION_TYPE_MAP, itemCount = 1,
                  items = [(CASS_VALUE_TYPE_TEXT, ''nickname''),
                           (CASS_VALUE_TYPE_TEXT, ''Bobby'')]\<rparr>)])"
proof -
  have h: "upsert_input_valid users_env ''ks.users'' users_row None (Some ''extra'') False"
    by (simp add: upsert_vocabulary users_defs)
  have r: "recognized_pairs users_env ''ks.users'' users_row = [(''id'', ''u1''), (''name'', ''Bob'')]"
    "unrecognized_pairs users_env ''ks.users'' users_row = [(''nickname'', ''Bobby'')]"
    by (simp_all add: users_defs)
  have n: "unrecognized_pairs users_env ''ks.users'' users_row \<noteq> []" by (simp add: r)
  have t: "lookup_type users_env ''ks.users'' ''id'' = uuid_type"
    "lookup_type users_env ''ks.users'' ''name'' = text_type"
    by (simp_all add: lookup_type_def users_env_def)
  from upsert_map_column[OF h n, of False] obtain out st where s:
    "casstcl_make_upsert_statement users_env ''ks.users'' (TclList users_row) None
           (Some ''extra'') False False = Inr out"
    "statementPtr out = Some st"
    "query st =
         upsert_query ''ks.users'' (map fst (recognized_pairs users_env ''ks.users'' users_row) @ [''extra''])
           False"
    "binds st =
         value_binds users_env ''ks.users'' 0 (recognized_pairs users_env ''ks.users'' users_row)
           @ [(length (recognized_pairs users_env ''ks.users'' users_row),
               BoundCollection
                 \<lparr>collectionType = CASS_COLLECTION_TYPE_MAP,
                  itemCount = length (unrecognized_pairs users_env ''ks.users'' users_row),
                  items = text_items (unrecognized_pairs users_env ''ks.users'' users_row)\<rparr>)]"
    by blast
  have q: "query st = ''INSERT INTO ks.users (id,name,extra) values (?,?,?)''"
    unfolding s(3) r by (simp add: upsert_query_def numeral_3_eq_3)
  have b: "binds st =
           [(0, BoundValue uuid_type ''u1''), (1, BoundValue text_type ''Bob''),
            (2, BoundCollection
                 \<lparr>collectionType = CASS_COLLECTION_TYPE_MAP, itemCount = 1,
                  items = [(CASS_VALUE_TYPE_TEXT, ''nickname''),
                           (CASS_VALUE_TYPE_TEXT, ''Bobby'')]\<rparr>)]"
    unfolding s(4) r by (simp add: t)
  show ?thesis
    by (intro conjI exI[of _ out] exI[of _ st]) (fact h n s(1,2) q b)+
qed

section \<open>Bind positions\<close>

text \<open>
  C10, as stated, fails: the conversion of the first value fails, the binding loop stops
  after the bind at position 0, and the map is still bound, at position 1. The statement
  has three fields: the map bind does not land at position 2, and the placeholders of
  \<open>name\<close> and of the map column are not bound as the claim says.
\<close>

theorem upsert_failed_bind_counterexample:
  "casstcl_make_upsert_statement users_env ''ks.users'' (TclList users_bad_row) None
       (Some ''extra'') False False =
     Inr \<lparr>returnCode = TCL_ERROR,
          resultText = ''cannot convert while constructing upsert statement, ''
            @ ''while attempting to bind field '' @ [CHR 0x27] @ ''id'' @ [CHR 0x27]
            @ '' of type '' @ [CHR 0x27] @ ''uuid'' @ [CHR 0x27] @ '', value ''
            @ [CHR 0x27] @ ''bad'' @ [CHR 0x27] @ '' referencing table ''
            @ [CHR 0x27] @ ''ks.users'' @ [CHR 0x27],
          statementPtr = None,
          constructed = Some \<lparr>query = ''INSERT INTO ks.users (id,name,extra) values (?,?,?)'',
            parameterCount = 3, consistency = None,
            binds = [(0, BoundValue uuid_type ''bad''),
                     (1, BoundCollection
                           \<lparr>collectionType = CASS_COLLECTION_TYPE_MAP, itemCount = 1,
                            items = [(CASS_VALUE_TYPE_TEXT, ''nickname''),
                                     (CASS_VALUE_TYPE_TEXT, ''Bobby'')]\<rparr>)]\<rparr>,
          lookedUp = [''id'', ''name'', ''nickname'']\<rparr>"
  by (simp add: upsert_defs users_defs users_bad_row_def)

text \<open>
  C10, amended. The type lookup keeping its contract, the builder never fails an
  assertion. On the statement it creates, the binds are issued at the positions 0, 1,
  2, ... in order, all below the field count: the values of the first \<open>j\<close> recognized
  pairs, each at the position that is the number of recognized pairs before it, then at
  most one map, at position \<open>j\<close>. When no bind fails and the statement is handed to the
  caller, every recognized pair is bound, the map (if triggered) lands at the last
  position, and each position below the field count is bound exactly once, in order. A
  failed bind ends the loop, so later placeholders stay unbound.
\<close>

theorem upsert_bind_positions:
  assumes "lookups_consistent env tableName listObjv"
  shows "\<exists>out.
       casstcl_make_upsert_statement env tableName (TclList listObjv) consistencyPtr
         mapUnknown dropUnknown ifNotExists = Inr out
     \<and> (\<forall>st. constructed out = Some st \<longrightarrow>
            map fst (binds st) = [0..<length (binds st)]
          \<and> length (binds st) \<le> parameterCount st
          \<and> (\<exists>j tail. j \<le> length (recognized_pairs env tableName listObjv)
                \<and> binds st = value_binds env tableName 0
                                (take j (recognized_pairs env tableName listObjv)) @ tail
                \<and> (tail = [] \<or> (\<exists>coll. tail = [(j, BoundCollection coll)]))))
     \<and> (\<forall>st. statementPtr out = Some st \<longrightarrow>
            map fst (binds st) = [0..<parameterCount st]
          \<and> binds st = value_binds env tableName 0 (recognized_pairs env tableName listObjv)
                @ (if map_triggered env tableName listObjv dropUnknown
                   then [(parameterCount st - 1,
                          BoundCollection (unknown_map env tableName listObjv))]
                   else []))"
proof -
  let ?rec = "recognized_pairs env tableName listObjv"
  let ?trig = "map_triggered env tableName listObjv dropUnknown"
  from upsert_general[OF assms, of consistencyPtr mapUnknown dropUnknown ifNotExists]
  obtain out where run:
    "casstcl_make_upsert_statement env tableName (TclList listObjv) consistencyPtr
         mapUnknown dropUnknown ifNotExists = Inr out"
    and shape: "case constructed out of
          None \<Rightarrow> statementPtr out = None
        | Some st \<Rightarrow>
            query st = upsert_query tableName
                         (column_list env tableName listObjv mapUnknown dropUnknown) ifNotExists
          \<and> parameterCount st = field_count env tableName listObjv dropUnknown
          \<and> (\<exists>j tail. j \<le> length ?rec
                \<and> binds st = value_binds env tableName 0 (take j ?rec) @ tail
                \<and> (if ?trig then tail = [] \<or> (\<exists>coll. tail = [(j, BoundCollection coll)])
                    else tail = [])
                \<and> (case statementPtr out of
                      None \<Rightarrow> True
                    | Some st' \<Rightarrow>
                        st' = st \<and> returnCode out = TCL_OK \<and> j = length ?rec
                      \<and> tail = (if ?trig
                                then [(j, BoundCollection (unknown_map env tableName listObjv))]
                                else [])))"
    by blast
  have created: "map fst (binds st) = [0..<length (binds st)]
          \<and> length (binds st) \<le> parameterCount st
          \<and> (\<exists>j tail. j \<le> length ?rec
                \<and> binds st = value_binds env tableName 0 (take j ?rec) @ tail
                \<and> (tail = [] \<or> (\<exists>coll. tail = [(j, BoundCollection coll)])))"
    if c: "constructed out = Some st" for st
  proof -
    from shape c obtain j tail where jt:
      "parameterCount st = field_count env tableName listObjv dropUnknown"
      "j \<le> length ?rec"
      "binds st = value_binds env tableName 0 (take j ?rec) @ tail"
      "if ?trig then tail = [] \<or> (\<exists>coll. tail = [(j, BoundCollection coll)]) else tail = []"
      by auto
    have cases: "tail = [] \<or> (?trig \<and> (\<exists>coll. tail = [(j, BoundCollection coll)]))"
      using jt(4) by (auto split: if_splits)
    have pos: "map fst (binds st) = [0..<length (binds st)]"
      using cases jt(2,3) by (auto simp: value_binds_positions)
    have bound: "length (binds st) \<le> parameterCount st"
      using cases jt(1,2,3) by (auto simp: field_count_def)
    show ?thesis using pos bound jt(2,3) cases by blast
  qed
  have handed: "map fst (binds st) = [0..<parameterCount st]
          \<and> binds st = value_binds env tableName 0 ?rec
                @ (if ?trig
                   then [(parameterCount st - 1,
                          BoundCollection (unknown_map env tableName listObjv))]
                   else [])"
    if p: "statementPtr out = Some st" for st
  proof -
    from shape p have
      "parameterCount st = field_count env tableName listObjv dropUnknown"
      "binds st = value_binds env tableName 0 ?rec
         @ (if ?trig then [(length ?rec, BoundCollection (unknown_map env tableName listObjv))]
            else [])"
      by (auto split: option.splits)
    then show ?thesis
      by (auto simp: field_count_def value_binds_positions)
  qed
  show ?thesis using run created handed by blast
qed

theorem upsert_bind_positions_witness:
  "lookups_consistent users_env ''ks.users'' users_bad_row
   \<and> (\<exists>out st.
         casstcl_make_upsert_statement users_env ''ks.users'' (TclList users_bad_row) None
           (Some ''extra'') False False = Inr out
       \<and> constructed out = Some st
       \<and> map fst (binds st) = [0..<length (binds st)]
       \<and> length (binds st) \<le> parameterCount st)"
proof -
  have h: "lookups_consistent users_env ''ks.users'' users_bad_row"
    by (simp add: lookups_consistent_def users_defs users_bad_row_def)
  from upsert_bind_positions[OF h, of None "Some ''extra''" False False] obtain out where s:
    "casstcl_make_upsert_statement users_env ''ks.users'' (TclList users_bad_row) None
           (Some ''extra'') False False = Inr out"
    "\<forall>st. constructed out = Some st \<longrightarrow>
            map fst (binds st) = [0..<length (binds st)]
          \<and> length (binds st) \<le> parameterCount st
          \<and> (\<exists>j tail. j \<le> length (recognized_pairs users_env ''ks.users'' users_bad_row)
                \<and> binds st = value_binds users_env ''ks.users'' 0
                                (take j (recognized_pairs users_env ''ks.users'' users_bad_row)) @ tail
                \<and> (tail = [] \<or> (\<exists>coll. tail = [(j, BoundCollection coll)])))"
    by blast
  have "constructed out \<noteq> None"
    using s(1) by (auto simp: upsert_defs users_defs users_bad_row_def)
  then obtain st where c: "constructed out = Some st" by blast
  with s(2) have p: "map fst (binds st) = [0..<length (binds st)]"
    "length (binds st) \<le> parameterCount st"
    by blast+
  show ?thesis
    by (intro conjI exI[of _ out] exI[of _ st]) (fact h s(1) c p)+
qed

end
